theory Spec2Isabelle
  imports Main "HOL-Library.Word" "HOL-Library.AList"
begin

unbundle bit_operations_syntax

section \<open>Container model synchronisation of lxe (lxf/container.go)\<close>

text \<open>
  Go strings are byte sequences; they are modelled as \<open>string\<close> (a list of 8-bit
  characters). Go maps from string to string are association lists whose order stands for
  the order in which \<open>range\<close> visits the entries.
\<close>

type_synonym cfgmap = "(string \<times> string) list"

subsection \<open>Lifecycle states and engine status codes\<close>

text \<open>\<open>ContainerState\<close> is a Go string type with four named values.\<close>

type_synonym ContainerState = string

definition ContainerStateCreated :: ContainerState where
  "ContainerStateCreated = ''created''"

definition ContainerStateRunning :: ContainerState where
  "ContainerStateRunning = ''running''"

definition ContainerStateExited :: ContainerState where
  "ContainerStateExited = ''exited''"

definition ContainerStateUnknown :: ContainerState where
  "ContainerStateUnknown = ''unknown''"

text \<open>
  \<open>api.StatusCode\<close> is an integer type of the engine's client library; the four codes the
  switch of \<open>toContainer\<close> names have the values the library gives them.
\<close>

type_synonym StatusCode = int

definition Stopped :: StatusCode where "Stopped = 102"
definition Running :: StatusCode where "Running = 103"
definition Stopping :: StatusCode where "Stopping = 107"
definition Aborting :: StatusCode where "Aborting = 108"

text \<open>
  The two-valued map read \<open>v, has := m[k]\<close>: the value (the empty string when the key is
  absent) and the presence flag.
\<close>

definition lookup2 :: "cfgmap \<Rightarrow> string \<Rightarrow> string \<times> bool" where
  "lookup2 m k = (case map_of m k of None \<Rightarrow> ('''', False) | Some v \<Rightarrow> (v, True))"

text \<open>
  The status switch of \<open>toContainer\<close> (lines 362-374), as a function of the status code,
  the presence flag and the value of the state marker.
\<close>

definition deriveState :: "StatusCode \<Rightarrow> bool \<Rightarrow> string \<Rightarrow> ContainerState" where
  "deriveState statusCode has state =
     (if statusCode = Running then ContainerStateRunning
      else if statusCode = Stopped \<or> statusCode = Aborting \<or> statusCode = Stopping then
        (if has \<and> state = ContainerStateCreated then ContainerStateCreated
         else ContainerStateExited)
      else ContainerStateUnknown)"

subsection \<open>Errors and panics\<close>

text \<open>
  Go errors are values: \<open>Errorf\<close> is an error made by \<open>fmt.Errorf\<close> (its text),
  \<open>NumError\<close> is the \<open>*strconv.NumError\<close> of a failed parse (function, input, cause), and
  \<open>External\<close> is an error that a collaborator (the engine client, the image or device
  code, the network plugin) returned. A panic is not an error value; a function that can
  panic returns an \<open>outcome\<close>.
\<close>

datatype numerr = ErrSyntax | ErrRange

datatype error = Errorf string | NumError string string numerr | External string

datatype panic = NilDereference | IndexOutOfRange | SliceOutOfRange | NilMapAssignment

datatype 'a outcome = Panics panic | Returns 'a

subsection \<open>The functions of \<open>strings\<close> and \<open>strconv\<close> that the file calls\<close>

definition HasPrefix :: "string \<Rightarrow> string \<Rightarrow> bool" where
  "HasPrefix s pre = (take (length pre) s = pre)"

definition TrimPrefix :: "string \<Rightarrow> string \<Rightarrow> string" where
  "TrimPrefix s pre = (if HasPrefix s pre then drop (length pre) s else s)"

text \<open>
  \<open>strings.TrimLeft(s, cutset)\<close> removes every leading character of \<open>s\<close> that occurs in
  \<open>cutset\<close>; it does not remove a prefix string.
\<close>

definition TrimLeft :: "string \<Rightarrow> string \<Rightarrow> string" where
  "TrimLeft s cutset = dropWhile (\<lambda>c. c \<in> set cutset) s"

fun Join :: "string list \<Rightarrow> string \<Rightarrow> string" where
  "Join [] sep = []"
| "Join [x] sep = x"
| "Join (x # y # ys) sep = x @ sep @ Join (y # ys) sep"

definition FormatBool :: "bool \<Rightarrow> string" where
  "FormatBool b = (if b then ''true'' else ''false'')"

definition digitChar :: "nat \<Rightarrow> char" where
  "digitChar d = ''0123456789'' ! d"

fun FormatUint :: "nat \<Rightarrow> string" where
  "FormatUint n = (if n < 10 then [digitChar n] else FormatUint (n div 10) @ [digitChar (n mod 10)])"

declare FormatUint.simps [simp del]

definition FormatInt :: "int \<Rightarrow> string" where
  "FormatInt i = (if i < 0 then CHR ''-'' # FormatUint (nat (- i)) else FormatUint (nat i))"

text \<open>\<open>strconv.ParseBool\<close> accepts exactly twelve spellings; anything else, the empty string
  included, is a syntax error.\<close>

definition ParseBool :: "string \<Rightarrow> error + bool" where
  "ParseBool str =
     (if str \<in> set [''1'', ''t'', ''T'', ''true'', ''TRUE'', ''True''] then Inr True
      else if str \<in> set [''0'', ''f'', ''F'', ''false'', ''FALSE'', ''False''] then Inr False
      else Inl (NumError ''ParseBool'' str ErrSyntax))"

definition isDigit :: "char \<Rightarrow> bool" where
  "isDigit c = (c \<in> set ''0123456789'')"

definition digitVal :: "char \<Rightarrow> nat" where
  "digitVal c = of_char c - 48"

text \<open>The digit loop of \<open>strconv.ParseUint\<close> in base 10: the first character that is no digit
  is a syntax error, the first digit that takes the value over \<open>maxVal\<close> a range error.\<close>

fun parseDigits :: "nat \<Rightarrow> nat \<Rightarrow> string \<Rightarrow> numerr + nat" where
  "parseDigits maxVal n [] = Inr n"
| "parseDigits maxVal n (c # cs) =
     (if \<not> isDigit c then Inl ErrSyntax
      else if n * 10 + digitVal c > maxVal then Inl ErrRange
      else parseDigits maxVal (n * 10 + digitVal c) cs)"

definition ParseUint :: "string \<Rightarrow> nat \<Rightarrow> error + nat" where
  "ParseUint s bitSize =
     (if s = [] then Inl (NumError ''ParseUint'' s ErrSyntax)
      else case parseDigits (2 ^ bitSize - 1) 0 s of
             Inl e \<Rightarrow> Inl (NumError ''ParseUint'' s e)
           | Inr n \<Rightarrow> Inr n)"

definition ParseInt :: "string \<Rightarrow> nat \<Rightarrow> error + int" where
  "ParseInt s bitSize =
     (if s = [] then Inl (NumError ''ParseInt'' s ErrSyntax)
      else
        let neg = (hd s = CHR ''-'');
            body = (if hd s = CHR ''+'' \<or> hd s = CHR ''-'' then tl s else s)
        in if body = [] then Inl (NumError ''ParseInt'' s ErrSyntax)
           else case parseDigits (2 ^ 64 - 1) 0 body of
                  Inl e \<Rightarrow> Inl (NumError ''ParseInt'' s e)
                | Inr un \<Rightarrow>
                    if \<not> neg \<and> un \<ge> 2 ^ (bitSize - 1) then Inl (NumError ''ParseInt'' s ErrRange)
                    else if neg \<and> un > 2 ^ (bitSize - 1) then Inl (NumError ''ParseInt'' s ErrRange)
                    else Inr (if neg then - int un else int un))"

subsection \<open>\<open>crypto/md5\<close> and \<open>encoding/base32\<close>\<close>

text \<open>
  \<open>md5.Sum\<close> as RFC 1321 defines it: the message is padded to a multiple of 64 bytes, each
  64-byte block runs 64 steps over the four chaining words, and the digest is the four
  words in little-endian byte order.
\<close>

definition md5_K :: "32 word list" where
  "md5_K = [0xd76aa478, 0xe8c7b756, 0x242070db, 0xc1bdceee, 0xf57c0faf, 0x4787c62a, 0xa8304613, 0xfd469501,
     0x698098d8, 0x8b44f7af, 0xffff5bb1, 0x895cd7be, 0x6b901122, 0xfd987193, 0xa679438e, 0x49b40821,
     0xf61e2562, 0xc040b340, 0x265e5a51, 0xe9b6c7aa, 0xd62f105d, 0x02441453, 0xd8a1e681, 0xe7d3fbc8,
     0x21e1cde6, 0xc33707d6, 0xf4d50d87, 0x455a14ed, 0xa9e3e905, 0xfcefa3f8, 0x676f02d9, 0x8d2a4c8a,
     0xfffa3942, 0x8771f681, 0x6d9d6122, 0xfde5380c, 0xa4beea44, 0x4bdecfa9, 0xf6bb4b60, 0xbebfbc70,
     0x289b7ec6, 0xeaa127fa, 0xd4ef3085, 0x04881d05, 0xd9d4d039, 0xe6db99e5, 0x1fa27cf8, 0xc4ac5665,
     0xf4292244, 0x432aff97, 0xab9423a7, 0xfc93a039, 0x655b59c3, 0x8f0ccc92, 0xffeff47d, 0x85845dd1,
     0x6fa87e4f, 0xfe2ce6e0, 0xa3014314, 0x4e0811a1, 0xf7537e82, 0xbd3af235, 0x2ad7d2bb, 0xeb86d391]"

definition md5_s :: "nat list" where
  "md5_s = [7, 12, 17, 22, 7, 12, 17, 22, 7, 12, 17, 22, 7, 12, 17, 22,
            5, 9, 14, 20, 5, 9, 14, 20, 5, 9, 14, 20, 5, 9, 14, 20,
            4, 11, 16, 23, 4, 11, 16, 23, 4, 11, 16, 23, 4, 11, 16, 23,
            6, 10, 15, 21, 6, 10, 15, 21, 6, 10, 15, 21, 6, 10, 15, 21]"

definition rotl32 :: "32 word \<Rightarrow> nat \<Rightarrow> 32 word" where
  "rotl32 x n = push_bit n x OR drop_bit (32 - n) x"

definition le_bytes :: "nat \<Rightarrow> nat \<Rightarrow> 8 word list" where
  "le_bytes k n = map (\<lambda>i. of_nat (n div 2 ^ (8 * i))) [0..<k]"

definition le32 :: "8 word list \<Rightarrow> 32 word" where
  "le32 bs = foldr (\<lambda>b w. push_bit 8 w OR ucast b) bs 0"

fun md5_words :: "8 word list \<Rightarrow> 32 word list" where
  "md5_words (b0 # b1 # b2 # b3 # rest) = le32 [b0, b1, b2, b3] # md5_words rest"
| "md5_words _ = []"

definition md5_pad :: "8 word list \<Rightarrow> 8 word list" where
  "md5_pad msg = msg @ [0x80] @ replicate ((119 - length msg mod 64) mod 64) 0 @ le_bytes 8 (8 * length msg)"

text \<open>The four chaining words of MD5.\<close>

type_synonym md5_state = "32 word \<times> 32 word \<times> 32 word \<times> 32 word"

definition md5_step :: "32 word list \<Rightarrow> nat \<Rightarrow> md5_state \<Rightarrow> md5_state" where
  "md5_step M i st =
     (case st of (A, B, C, D) \<Rightarrow>
        let F = (if i < 16 then (B AND C) OR (NOT B AND D)
                 else if i < 32 then (D AND B) OR (NOT D AND C)
                 else if i < 48 then B XOR C XOR D
                 else C XOR (B OR NOT D));
            g = (if i < 16 then i
                 else if i < 32 then (5 * i + 1) mod 16
                 else if i < 48 then (3 * i + 5) mod 16
                 else (7 * i) mod 16);
            F' = F + A + md5_K ! i + M ! g
        in (D, B + rotl32 F' (md5_s ! i), B, C))"

definition md5_block :: "md5_state \<Rightarrow> 8 word list \<Rightarrow> md5_state" where
  "md5_block st chunk =
     (case st of (a0, b0, c0, d0) \<Rightarrow>
        case fold (md5_step (md5_words chunk)) [0..<64] st of (A, B, C, D) \<Rightarrow>
          (a0 + A, b0 + B, c0 + C, d0 + D))"

fun md5_blocks :: "md5_state \<Rightarrow> 8 word list \<Rightarrow> md5_state" where
  "md5_blocks st bs = (if length bs < 64 then st else md5_blocks (md5_block st (take 64 bs)) (drop 64 bs))"

declare md5_blocks.simps [simp del]

definition md5_Sum :: "8 word list \<Rightarrow> 8 word list" where
  "md5_Sum msg =
     (case md5_blocks (0x67452301, 0xefcdab89, 0x98badcfe, 0x10325476) (md5_pad msg) of
        (a, b, c, d) \<Rightarrow> concat (map (\<lambda>w. le_bytes 4 (unat w)) [a, b, c, d]))"

text \<open>
  A \<open>base32.Encoding\<close>: its 32-character alphabet and its padding character
  (\<open>None\<close> for \<open>NoPadding\<close>).
\<close>

record Encoding =
  encodeAlphabet :: string
  padChar :: "char option"

text \<open>The eight 5-bit values of a group of up to five bytes, missing bytes read as zero.\<close>

definition b32_quantum :: "8 word list \<Rightarrow> nat list" where
  "b32_quantum bs =
     (let v = foldl (\<lambda>acc b. acc * 256 + unat b) 0 (take 5 (bs @ replicate 5 0))
      in map (\<lambda>i. (v div 2 ^ (5 * (7 - i))) mod 32) [0..<8])"

fun EncodeToString :: "Encoding \<Rightarrow> 8 word list \<Rightarrow> string" where
  "EncodeToString enc src =
     (if src = [] then []
      else if 5 \<le> length src then
        map (\<lambda>v. encodeAlphabet enc ! v) (b32_quantum (take 5 src)) @ EncodeToString enc (drop 5 src)
      else
        let n = (length src * 8 + 4) div 5
        in map (\<lambda>v. encodeAlphabet enc ! v) (take n (b32_quantum src)) @
           (case padChar enc of None \<Rightarrow> [] | Some p \<Rightarrow> replicate (8 - n) p))"

declare EncodeToString.simps [simp del]

text \<open>\<open>[]byte(s)\<close>: the bytes of a string.\<close>

definition bytes :: "string \<Rightarrow> 8 word list" where
  "bytes s = map (\<lambda>c. of_nat (of_char c)) s"

text \<open>
  \<open>string(b)\<close> for a byte \<open>b\<close>: the UTF-8 encoding of the code point \<open>b\<close>, one byte
  below 128 and two bytes from 128 on.
\<close>

definition string_of_byte :: "char \<Rightarrow> string" where
  "string_of_byte b =
     (let n = (of_char b :: nat)
      in if n < 128 then [b] else [char_of (192 + n div 64), char_of (128 + n mod 64)])"

subsection \<open>The data model\<close>

text \<open>
  The device types are declared in package \<open>device\<close>; this file reads only the path of a
  disk. \<open>map[string]map[string]string\<close> is the engine's device table.
\<close>

typedecl Proxy
typedecl Block
typedecl Nic
typedecl ContainerStateNetwork

record Disk =
  Path :: string

type_synonym devmap = "(string \<times> cfgmap) list"

record ContainerMetadata =
  Name :: string
  Attempt :: "32 word"

record ContainerStats =
  MemoryUsage :: "64 word"
  CPUUsage :: "64 word"
  FilesystemUsage :: "64 word"

text \<open>
  The sandbox is declared in another file of the package; these are the fields this file
  reads. A Go map may be nil: \<open>ModeData\<close> is \<open>None\<close> then.
\<close>

datatype NetworkMode = NetworkHost | NetworkCNI | NetworkModeOther string

record SandboxMetadata =
  sbName :: string
  sbNamespace :: string
  sbAttempt :: "32 word"
  sbUID :: string

record NetworkConfig =
  Mode :: NetworkMode
  ModeData :: "cfgmap option"

record Sandbox =
  sbID :: string
  sbMetadata :: SandboxMetadata
  sbNetworkConfig :: NetworkConfig

text \<open>
  \<open>Container\<close> with the fields of the embedded \<open>CRIObject\<close> first. A \<open>time.Time\<close> is
  represented by its \<open>UnixNano()\<close> reading; the \<open>*Sandbox\<close> pointer is an option.
\<close>

record Container =
  ID :: string
  Proxies :: "Proxy list"
  Disks :: "Disk list"
  Blocks :: "Block list"
  Nics :: "Nic list"
  Labels :: cfgmap
  Annotations :: cfgmap
  Config :: cfgmap
  LogPath :: string
  Metadata :: ContainerMetadata
  State :: ContainerState
  Pid :: "64 word"
  StartedAt :: int
  CreatedAt :: int
  Privileged :: bool
  CloudInitUserData :: string
  CloudInitMetaData :: string
  CloudInitNetworkConfig :: string
  Network :: "(string \<times> ContainerStateNetwork) list"
  EnvironmentVars :: cfgmap
  Stats :: ContainerStats
  Sandbox :: "Sandbox option"
  Image :: string

text \<open>The engine's view of a container: \<open>api.Container\<close>, \<open>api.ContainerPut\<close>,
  \<open>api.ContainersPost\<close> and \<open>api.ContainerState\<close>.\<close>

record ContainerPut =
  putProfiles :: "string list"
  putConfig :: cfgmap
  putDevices :: devmap

record api_Container =
  apiName :: string
  apiProfiles :: "string list"
  apiConfig :: cfgmap
  apiDevices :: devmap

record ContainersPost =
  postName :: string
  postContainerPut :: ContainerPut
  postFingerprint :: string
  postType :: string

record api_ContainerState =
  stStatusCode :: StatusCode
  stPid :: "64 word"
  stCPUUsage :: "64 word"
  stMemoryUsage :: "64 word"
  stDisk :: "(string \<times> 64 word) list"
  stNetwork :: "(string \<times> ContainerStateNetwork) list"

subsection \<open>Declarations of the package that live in other files\<close>

text \<open>
  The file uses constants, an encoder and functions that other files of the repository
  declare (\<open>cfgState\<close>, \<open>cfgIsCRI\<close>, \<open>SchemaVersionContainer\<close>, \<open>ErrorNotFound\<close>,
  \<open>b32lowerEncoder\<close>, image resolution, the device codecs, the sandbox store, the network
  plugin). They are parameters of the model: every function below takes the record \<open>D\<close>
  that holds them.
\<close>

record Deps =
  cfgSchema :: string
  cfgIsCRI :: string
  cfgState :: string
  cfgMetaName :: string
  cfgMetaAttempt :: string
  cfgCreatedAt :: string
  cfgCloudInitNetworkConfig :: string
  cfgLabels :: string
  cfgAnnotations :: string
  SchemaVersionContainer :: string
  ErrorNotFound :: string
  b32lowerEncoder :: Encoding
  parseImage :: "string \<Rightarrow> error + string"
  Hash :: "string \<Rightarrow> error + (string \<times> bool)"
  AddDisksToMap :: "devmap \<Rightarrow> Disk list \<Rightarrow> devmap \<times> error option"
  AddProxiesToMap :: "devmap \<Rightarrow> Proxy list \<Rightarrow> devmap \<times> error option"
  AddBlocksToMap :: "devmap \<Rightarrow> Block list \<Rightarrow> devmap \<times> error option"
  AddNicsToMap :: "devmap \<Rightarrow> Nic list \<Rightarrow> devmap \<times> error option"
  GetProxiesFromMap :: "devmap \<Rightarrow> error + Proxy list"
  GetDisksFromMap :: "devmap \<Rightarrow> error + Disk list"
  GetBlocksFromMap :: "devmap \<Rightarrow> error + Block list"
  GetNicsFromMap :: "devmap \<Rightarrow> error + Nic list"
  GetSandbox :: "string \<Rightarrow> error + Sandbox"
  saveSandbox :: "Sandbox \<Rightarrow> error option"
  AttachCNIInterface :: "string \<Rightarrow> string \<Rightarrow> string \<Rightarrow> 64 word \<Rightarrow> string \<times> error option"
  ReattachCNIInterface :: "string \<Rightarrow> string \<Rightarrow> string \<Rightarrow> 64 word \<Rightarrow> string \<Rightarrow> error option"

text \<open>The constants of lines 18-29.\<close>

definition cfgLogPath :: string where "cfgLogPath = ''user.log_path''"
definition cfgSecurityPrivileged :: string where "cfgSecurityPrivileged = ''security.privileged''"
definition cfgVolatileBaseImage :: string where "cfgVolatileBaseImage = ''volatile.base_image''"
definition cfgStartedAt :: string where "cfgStartedAt = ''user.started_at''"
definition cfgCloudInitUserData :: string where "cfgCloudInitUserData = ''user.user-data''"
definition cfgCloudInitMetaData :: string where "cfgCloudInitMetaData = ''user.meta-data''"
definition cfgEnvironmentPrefix :: string where "cfgEnvironmentPrefix = ''environment''"
definition cfgAutoStartOnBoot :: string where "cfgAutoStartOnBoot = ''boot.autostart''"

text \<open>\<open>m[k]\<close> read for its value alone: the empty string when the key is absent.\<close>

definition cfgGet :: "cfgmap \<Rightarrow> string \<Rightarrow> string" where
  "cfgGet m k = fst (lookup2 m k)"

subsection \<open>The config store\<close>

record ConfigStore =
  reserved :: "string list"
  reservedPrefixes :: "string list"

text \<open>Lines 45-50.\<close>

definition containerConfigStore :: "Deps \<Rightarrow> ConfigStore" where
  "containerConfigStore D =
     \<lparr> reserved = [cfgSchema D, cfgLogPath, cfgIsCRI D, cfgSecurityPrivileged, cfgState D,
                    cfgMetaName D, cfgMetaAttempt D, cfgCreatedAt D, cfgStartedAt,
                    cfgCloudInitUserData, cfgCloudInitMetaData, cfgCloudInitNetworkConfig D],
       reservedPrefixes = [cfgLabels D, cfgAnnotations D, ''volatile''] \<rparr>"

text \<open>
  Modelled from the spec: the methods \<open>IsReserved\<close>, \<open>StripedPrefixMap\<close> and \<open>UnreservedMap\<close>
  of the config store are declared in another file. The spec: a key is reserved when it is
  one of the exact reserved keys or is a reserved prefix followed by \<open>.\<close> and a suffix;
  stripping a prefix extracts the entries of that namespace and removes the prefix from
  their keys; the unreserved map keeps the entries whose key is not reserved.
\<close>

definition IsReserved :: "ConfigStore \<Rightarrow> string \<Rightarrow> bool" where
  "IsReserved cs key =
     (key \<in> set (reserved cs) \<or> list_ex (\<lambda>p. HasPrefix key (p @ ''.'')) (reservedPrefixes cs))"

definition StripedPrefixMap :: "cfgmap \<Rightarrow> string \<Rightarrow> cfgmap" where
  "StripedPrefixMap config pre =
     fold (\<lambda>kv out. if HasPrefix (fst kv) (pre @ ''.'')
                     then AList.update (TrimPrefix (fst kv) (pre @ ''.'')) (snd kv) out else out)
          config []"

definition UnreservedMap :: "ConfigStore \<Rightarrow> cfgmap \<Rightarrow> cfgmap" where
  "UnreservedMap cs config = filter (\<lambda>kv. \<not> IsReserved cs (fst kv)) config"

subsection \<open>Encoding a container (lines 248-306) and decoding the environment (408-418)\<close>

definition makeContainerConfig :: "Deps \<Rightarrow> Container \<Rightarrow> cfgmap" where
  "makeContainerConfig D c =
     (let config = [];
          config = fold (\<lambda>kv. AList.update (cfgLabels D @ ''.'' @ fst kv) (snd kv)) (Labels c) config;
          config = fold (\<lambda>kv. AList.update (cfgAnnotations D @ ''.'' @ fst kv) (snd kv)) (Annotations c) config;
          config = AList.update (cfgState D) ContainerStateCreated config;
          config = AList.update (cfgCreatedAt D) (FormatInt (CreatedAt c)) config;
          config = AList.update cfgStartedAt (FormatInt (StartedAt c)) config;
          config = AList.update cfgSecurityPrivileged (FormatBool (Privileged c)) config;
          config = AList.update cfgLogPath (LogPath c) config;
          config = AList.update (cfgIsCRI D) (FormatBool True) config;
          config = AList.update (cfgMetaName D) (Name (Metadata c)) config;
          config = AList.update (cfgMetaAttempt D) (FormatUint (unat (Attempt (Metadata c)))) config;
          config = AList.update cfgVolatileBaseImage (Image c) config;
          config = AList.update cfgAutoStartOnBoot (FormatBool True) config;
          config = fold (\<lambda>kv. AList.update (cfgEnvironmentPrefix @ ''.'' @ fst kv) (snd kv))
                     (EnvironmentVars c) config;
          config = (if CloudInitMetaData c \<noteq> [] then
                      AList.update cfgCloudInitMetaData (CloudInitMetaData c) config else config);
          config = (if CloudInitUserData c \<noteq> [] then
                      AList.update cfgCloudInitUserData (CloudInitUserData c) config else config);
          config = (if CloudInitNetworkConfig c \<noteq> [] then
                      AList.update (cfgCloudInitNetworkConfig D) (CloudInitNetworkConfig c) config
                    else config)
      in config)"

definition makeContainerDevices :: "Deps \<Rightarrow> Container \<Rightarrow> devmap \<times> error option" where
  "makeContainerDevices D c =
     (case AddDisksToMap D [] (Disks c) of
        (devices, Some err) \<Rightarrow> (devices, Some err)
      | (devices, None) \<Rightarrow>
     (case AddProxiesToMap D devices (Proxies c) of
        (devices, Some err) \<Rightarrow> (devices, Some err)
      | (devices, None) \<Rightarrow>
     (case AddBlocksToMap D devices (Blocks c) of
        (devices, Some err) \<Rightarrow> (devices, Some err)
      | (devices, None) \<Rightarrow> AddNicsToMap D devices (Nics c))))"

definition extractEnvVars :: "cfgmap \<Rightarrow> cfgmap" where
  "extractEnvVars config =
     fold (\<lambda>kv envVars.
             if HasPrefix (fst kv) (cfgEnvironmentPrefix @ ''.'')
             then AList.update (TrimLeft (fst kv) (cfgEnvironmentPrefix @ ''.'')) (snd kv) envVars
             else envVars)
          config []"

subsection \<open>The identifier (lines 577-589)\<close>

text \<open>
  \<open>c.Sandbox\<close> is dereferenced while the parts are collected, \<open>c.Metadata.Name[0]\<close> is read
  next and the encoded digest is sliced last: a nil sandbox panics first, an empty name
  panics at the index, and an encoding shorter than 15 characters would panic at the slice.
\<close>

definition CreateID :: "Deps \<Rightarrow> Container \<Rightarrow> string outcome" where
  "CreateID D c =
     (case Sandbox c of
        None \<Rightarrow> Panics NilDereference
      | Some sb \<Rightarrow>
          let parts = [''k8s'', Name (Metadata c), sbName (sbMetadata sb),
                       sbNamespace (sbMetadata sb), FormatUint (unat (sbAttempt (sbMetadata sb))),
                       sbUID (sbMetadata sb)];
              name = Join parts ''-'';
              bin = md5_Sum (bytes name);
              encoded = EncodeToString (b32lowerEncoder D) bin
          in case Name (Metadata c) of
               [] \<Rightarrow> Panics IndexOutOfRange
             | b # _ \<Rightarrow>
                 if length encoded < 15 then Panics SliceOutOfRange
                 else Returns (string_of_byte b @ take 15 encoded))"

subsection \<open>The state of an \<open>LXF\<close> and the engine behind it\<close>

text \<open>Lines 492-499: the item \<open>AddMonitorTask\<close> puts on the channel; the container pointer
  may be nil.\<close>

record ContainerMonitorChan =
  container :: "Container option"
  task :: string
  intervalSec :: int
  once :: bool

text \<open>
  The calls that write to a collaborator are recorded in the order they are issued, with
  their arguments, whether they succeed or not; so are the log lines, by level and format
  string, and the goroutines that are started.
\<close>

datatype call =
    LxoCreateContainer ContainersPost
  | LxoUpdateContainer string ContainerPut
  | LxoStartContainer string
  | GoRemountMissingVolumes Container
  | CallAttachCNIInterface string string string "64 word"
  | CallReattachCNIInterface string string string "64 word" string
  | CallSaveSandbox Sandbox

datatype loglevel = LDebug | LWarn | LError

record LXF =
  server :: "string \<rightharpoonup> api_Container \<times> api_ContainerState"
  cntMonitorChan :: "ContainerMonitorChan list"
  clock :: int
  calls :: "call list"
  logs :: "(loglevel \<times> string) list"

definition logf :: "loglevel \<Rightarrow> string \<Rightarrow> LXF \<Rightarrow> LXF" where
  "logf lvl fmt l = l\<lparr>logs := logs l @ [(lvl, fmt)]\<rparr>"

definition issue :: "call \<Rightarrow> LXF \<Rightarrow> LXF" where
  "issue cl l = l\<lparr>calls := calls l @ [cl]\<rparr>"

text \<open>The engine client's reads: \<open>l.server.GetContainer\<close> and \<open>l.server.GetContainerState\<close>.\<close>

definition server_GetContainer :: "LXF \<Rightarrow> string \<Rightarrow> error + api_Container" where
  "server_GetContainer l name =
     (case server l name of None \<Rightarrow> Inl (External ''not found'') | Some (ct, st) \<Rightarrow> Inr ct)"

definition server_GetContainerState :: "LXF \<Rightarrow> string \<Rightarrow> error + api_ContainerState" where
  "server_GetContainerState l name =
     (case server l name of None \<Rightarrow> Inl (External ''not found'') | Some (ct, st) \<Rightarrow> Inr st)"

text \<open>
  Modelled from the spec: package \<open>lxo\<close> (\<open>StartContainer\<close>, \<open>CreateContainer\<close>,
  \<open>UpdateContainer\<close>) is not among the sources. The spec names them as the engine's
  create, update and start operations: create adds an object under the given name with
  the given profiles, config and devices, in a stopped state; update replaces the writable
  part of an existing object; start puts an existing object in the running state.
\<close>

definition lxo_StartContainer :: "LXF \<Rightarrow> string \<Rightarrow> error option \<times> LXF" where
  "lxo_StartContainer l id' =
     (case server l id' of
        None \<Rightarrow> (Some (External ''not found''), issue (LxoStartContainer id') l)
      | Some (ct, st) \<Rightarrow>
          (None, issue (LxoStartContainer id')
                   (l\<lparr>server := (server l)(id' \<mapsto> (ct, st\<lparr>stStatusCode := Running\<rparr>))\<rparr>)))"

definition lxo_CreateContainer :: "LXF \<Rightarrow> ContainersPost \<Rightarrow> error option \<times> LXF" where
  "lxo_CreateContainer l post =
     (case server l (postName post) of
        Some x \<Rightarrow> (Some (External ''already exists''), issue (LxoCreateContainer post) l)
      | None \<Rightarrow>
          (None, issue (LxoCreateContainer post)
                   (l\<lparr>server := (server l)(postName post \<mapsto>
                        (\<lparr>apiName = postName post,
                          apiProfiles = putProfiles (postContainerPut post),
                          apiConfig = putConfig (postContainerPut post),
                          apiDevices = putDevices (postContainerPut post)\<rparr>,
                         \<lparr>stStatusCode = Stopped, stPid = 0, stCPUUsage = 0, stMemoryUsage = 0,
                          stDisk = [], stNetwork = []\<rparr>))\<rparr>)))"

definition lxo_UpdateContainer :: "LXF \<Rightarrow> string \<Rightarrow> ContainerPut \<Rightarrow> error option \<times> LXF" where
  "lxo_UpdateContainer l id' put =
     (case server l id' of
        None \<Rightarrow> (Some (External ''not found''), issue (LxoUpdateContainer id' put) l)
      | Some (ct, st) \<Rightarrow>
          (None, issue (LxoUpdateContainer id' put)
                   (l\<lparr>server := (server l)(id' \<mapsto>
                        (ct\<lparr>apiProfiles := putProfiles put, apiConfig := putConfig put,
                            apiDevices := putDevices put\<rparr>, st))\<rparr>)))"

text \<open>\<open>ct.Writable()\<close>: the writable part of an engine object.\<close>

definition Writable :: "api_Container \<Rightarrow> ContainerPut" where
  "Writable ct = \<lparr>putProfiles = apiProfiles ct, putConfig = apiConfig ct, putDevices = apiDevices ct\<rparr>"

subsection \<open>Reading a container (lines 181-197 and 309-404)\<close>

text \<open>
  \<open>v, err := f(); if err != nil { return nil, err }\<close>: the error of a step is returned
  at once, its value is passed on otherwise.
\<close>

definition orReturn :: "error + 'a \<Rightarrow> ('a \<Rightarrow> error + 'b) \<Rightarrow> error + 'b" where
  "orReturn r f = (case r of Inl err \<Rightarrow> Inl err | Inr v \<Rightarrow> f v)"

definition toContainer :: "Deps \<Rightarrow> LXF \<Rightarrow> api_Container \<Rightarrow> error + Container" where
  "toContainer D l ct =
     (if cfgGet (apiConfig ct) (cfgSchema D) \<noteq> SchemaVersionContainer D
      then Inl (Errorf ''Container %v is not in schema version %v, got %v'')
      else
      orReturn (server_GetContainerState l (apiName ct)) (\<lambda>state.
      orReturn (ParseUint (cfgGet (apiConfig ct) (cfgMetaAttempt D)) 32) (\<lambda>attempts.
      orReturn (ParseBool (cfgGet (apiConfig ct) cfgSecurityPrivileged)) (\<lambda>privileged.
      orReturn (ParseInt (cfgGet (apiConfig ct) (cfgCreatedAt D)) 64) (\<lambda>createdAt.
      orReturn (ParseInt (cfgGet (apiConfig ct) cfgStartedAt) 64) (\<lambda>startedAt.
      orReturn (GetProxiesFromMap D (apiDevices ct)) (\<lambda>proxies.
      orReturn (GetDisksFromMap D (apiDevices ct)) (\<lambda>disks.
      orReturn (GetBlocksFromMap D (apiDevices ct)) (\<lambda>blocks.
      orReturn (GetNicsFromMap D (apiDevices ct)) (\<lambda>nics.
      if apiProfiles ct = []
      then Inl (Errorf ''Container '%v' must have at least one profile'')
      else
      orReturn (GetSandbox D (hd (apiProfiles ct))) (\<lambda>sandbox.
        Inr \<lparr> ID = apiName ct,
              Proxies = proxies, Disks = disks, Blocks = blocks, Nics = nics,
              Labels = StripedPrefixMap (apiConfig ct) (cfgLabels D),
              Annotations = StripedPrefixMap (apiConfig ct) (cfgAnnotations D),
              Config = UnreservedMap (containerConfigStore D) (apiConfig ct),
              LogPath = cfgGet (apiConfig ct) cfgLogPath,
              Metadata = \<lparr>Name = cfgGet (apiConfig ct) (cfgMetaName D),
                          Attempt = of_nat attempts\<rparr>,
              State = deriveState (stStatusCode state)
                        (snd (lookup2 (apiConfig ct) (cfgState D)))
                        (fst (lookup2 (apiConfig ct) (cfgState D))),
              Pid = stPid state,
              StartedAt = startedAt,
              CreatedAt = createdAt,
              Privileged = privileged,
              CloudInitUserData = cfgGet (apiConfig ct) cfgCloudInitUserData,
              CloudInitMetaData = cfgGet (apiConfig ct) cfgCloudInitMetaData,
              CloudInitNetworkConfig = cfgGet (apiConfig ct) (cfgCloudInitNetworkConfig D),
              Network = stNetwork state,
              EnvironmentVars = extractEnvVars (apiConfig ct),
              Stats = \<lparr>MemoryUsage = stMemoryUsage state, CPUUsage = stCPUUsage state,
                       FilesystemUsage = (case map_of (stDisk state) ''root'' of
                                            None \<Rightarrow> 0 | Some u \<Rightarrow> u)\<rparr>,
              Sandbox = Some sandbox,
              Image = cfgGet (apiConfig ct) cfgVolatileBaseImage \<rparr>)))))))))))"

definition GetContainer :: "Deps \<Rightarrow> LXF \<Rightarrow> string \<Rightarrow> error + Container" where
  "GetContainer D l id' =
     (case server_GetContainer l id' of
        Inl err \<Rightarrow> Inl err
      | Inr ct \<Rightarrow>
          (case ParseBool (cfgGet (apiConfig ct) (cfgIsCRI D)) of
             Inl err \<Rightarrow> Inl err
           | Inr isCRIContainer \<Rightarrow>
               if \<not> isCRIContainer then Inl (Errorf (ErrorNotFound D))
               else toContainer D l ct))"

subsection \<open>Writing a container (lines 93-117 and 200-246)\<close>

text \<open>The loop of lines 219-225 for one entry of \<open>c.Config\<close>: a reserved key is logged and
  dropped, any other key is written.\<close>

definition mergeConfigKey :: "Deps \<Rightarrow> string \<times> string \<Rightarrow> cfgmap \<times> LXF \<Rightarrow> cfgmap \<times> LXF" where
  "mergeConfigKey D kv cl =
     (if IsReserved (containerConfigStore D) (fst kv)
      then (fst cl, logf LWarn ''config key '%v' is reserved and can not be used'' (snd cl))
      else (AList.update (fst kv) (snd kv) (fst cl), snd cl))"

text \<open>
  \<open>saveContainer\<close> returns its error, the container (whose \<open>ID\<close> it may assign) and the new
  state. It panics where \<open>c.Sandbox\<close> is nil at line 229 and where \<open>CreateID\<close> panics.
\<close>

definition saveContainer :: "Deps \<Rightarrow> LXF \<Rightarrow> Container \<Rightarrow> (error option \<times> Container \<times> LXF) outcome" where
  "saveContainer D l c =
     (case parseImage D (Image c) of
        Inl err \<Rightarrow> Returns (Some err, c, l)
      | Inr imageID \<Rightarrow>
     (case Hash D imageID of
        Inl err \<Rightarrow> Returns (Some err, c, l)
      | Inr hf \<Rightarrow>
          if \<not> snd hf then Returns (Some (Errorf ''image '%v' not found on local remote''), c, l)
          else
            (case makeContainerDevices D c of
               (devices, Some err) \<Rightarrow> Returns (Some err, c, l)
             | (devices, None) \<Rightarrow>
                 let cl = fold (mergeConfigKey D) (Config c) (makeContainerConfig D c, l);
                     config = AList.update (cfgSchema D) (SchemaVersionContainer D) (fst cl)
                 in (case Sandbox c of
                       None \<Rightarrow> Panics NilDereference
                     | Some sb \<Rightarrow>
                         let contPut = \<lparr>putProfiles = [sbID sb, ''default''], putConfig = config,
                                        putDevices = devices\<rparr>
                         in if ID c = [] then
                              (case CreateID D c of
                                 Panics p \<Rightarrow> Panics p
                               | Returns newID \<Rightarrow>
                                   (case lxo_CreateContainer (snd cl)
                                           \<lparr>postName = newID, postContainerPut = contPut,
                                            postFingerprint = fst hf, postType = ''image''\<rparr> of
                                      (err, l') \<Rightarrow> Returns (err, c\<lparr>ID := newID\<rparr>, l')))
                            else
                              (case lxo_UpdateContainer (snd cl) (ID c) contPut of
                                 (err, l') \<Rightarrow> Returns (err, c, l'))))))"

text \<open>The text of the error of line 102; it begins and ends with a quote character.\<close>

definition errHostNetwork :: string where
  "errHostNetwork =
     CHR 0x27 # ''podSpec.hostNetwork: true' can only be used together with 'containerSpec.securityContext.privileged: true'' @ [CHR 0x27]"

definition CreateContainer :: "Deps \<Rightarrow> LXF \<Rightarrow> Container \<Rightarrow> (error option \<times> Container \<times> LXF) outcome" where
  "CreateContainer D l c =
     (case Sandbox c of
        None \<Rightarrow> Returns (Some (Errorf ''container needs a sandbox''), c, l)
      | Some sb \<Rightarrow>
          let c = c\<lparr>CreatedAt := clock l\<rparr>
          in if Mode (sbNetworkConfig sb) = NetworkHost \<and> \<not> Privileged c
             then Returns (Some (Errorf errHostNetwork), c, l)
             else saveContainer D l c)"

definition UpdateContainer :: "Deps \<Rightarrow> LXF \<Rightarrow> Container \<Rightarrow> (error option \<times> Container \<times> LXF) outcome" where
  "UpdateContainer D l c =
     (case Sandbox c of
        None \<Rightarrow> Returns (Some (Errorf ''container needs a sandbox''), c, l)
      | Some sb \<Rightarrow> saveContainer D l c)"

subsection \<open>Starting a container (lines 120-146)\<close>

definition StartContainer :: "Deps \<Rightarrow> LXF \<Rightarrow> string \<Rightarrow> error option \<times> LXF" where
  "StartContainer D l id' =
     (case lxo_StartContainer l id' of
        (Some err, l) \<Rightarrow> (Some err, l)
      | (None, l) \<Rightarrow>
     (case server_GetContainer l id' of
        Inl err \<Rightarrow> (Some err, l)
      | Inr ct \<Rightarrow>
          let ct = ct\<lparr>apiConfig := AList.delete (cfgState D) (apiConfig ct)\<rparr>;
              ct = ct\<lparr>apiConfig := AList.update cfgStartedAt (FormatInt (clock l)) (apiConfig ct)\<rparr>
          in (case GetContainer D l id' of
                Inl err \<Rightarrow> (Some err, l)
              | Inr c \<Rightarrow>
                  lxo_UpdateContainer (issue (GoRemountMissingVolumes c) l) id' (Writable ct))))"

subsection \<open>Stopping a container (lines 151-153)\<close>

text \<open>
  Modelled from the spec: \<open>lxo.StopContainer\<close> is not among the sources; it is the engine's
  stop operation, which puts an existing object in the stopped state.
\<close>

definition lxo_StopContainer :: "LXF \<Rightarrow> string \<Rightarrow> error option \<times> LXF" where
  "lxo_StopContainer l id' =
     (case server l id' of
        None \<Rightarrow> (Some (External ''not found''), l)
      | Some (ct, st) \<Rightarrow>
          (None, l\<lparr>server := (server l)(id' \<mapsto> (ct, st\<lparr>stStatusCode := Stopped\<rparr>))\<rparr>))"

definition StopContainer :: "LXF \<Rightarrow> string \<Rightarrow> error option \<times> LXF" where
  "StopContainer l id' = lxo_StopContainer l id'"

subsection \<open>The lifecycle event handler (lines 420-499)\<close>

definition AddMonitorTask :: "LXF \<Rightarrow> Container option \<Rightarrow> string \<Rightarrow> int \<Rightarrow> bool \<Rightarrow> LXF" where
  "AddMonitorTask l c task' interval once' =
     l\<lparr>cntMonitorChan := cntMonitorChan l @
          [\<lparr>container = c, task = task', intervalSec = interval, once = once'\<rparr>]\<rparr>"

text \<open>
  A notification is represented by what the two JSON steps make of it: marshalling fails,
  or decoding into \<open>api.Event\<close> fails, or there is an event with a type and a metadata
  field, which in turn decodes into an \<open>api.EventLifecycle\<close> or fails to.
\<close>

datatype lifecycle_metadata = BadMetadata | EventLifecycle string string

datatype message = MarshalFails | UnmarshalFails | Event string lifecycle_metadata

text \<open>Lines 461-488, for a container that was loaded and whose sandbox pointer is set.\<close>

definition attachNetwork :: "Deps \<Rightarrow> LXF \<Rightarrow> Container \<Rightarrow> Sandbox \<Rightarrow> LXF outcome" where
  "attachNetwork D l cnt sb =
     (if Mode (sbNetworkConfig sb) = NetworkCNI then
        (if length (case ModeData (sbNetworkConfig sb) of None \<Rightarrow> [] | Some md \<Rightarrow> md) = 0 then
           let r = AttachCNIInterface D (sbNamespace (sbMetadata sb)) (sbName (sbMetadata sb)) (ID cnt) (Pid cnt);
               l = issue (CallAttachCNIInterface (sbNamespace (sbMetadata sb)) (sbName (sbMetadata sb)) (ID cnt) (Pid cnt)) l;
               l = (if snd r \<noteq> None
                    then logf LError ''unable to attach CNI interface to container (%v): %v'' l else l)
           in (case ModeData (sbNetworkConfig sb) of
                 None \<Rightarrow> Panics NilMapAssignment
               | Some md \<Rightarrow>
                   let sb = sb\<lparr>sbNetworkConfig := (sbNetworkConfig sb)
                                 \<lparr>ModeData := Some (AList.update ''result'' (fst r) md)\<rparr>\<rparr>;
                       err = saveSandbox D sb;
                       l = issue (CallSaveSandbox sb) l
                   in Returns (if err \<noteq> None
                               then logf LError ''unable to save sandbox after attaching CNI interface to container (%v): %v'' l
                               else l))
         else
           let md = (case ModeData (sbNetworkConfig sb) of None \<Rightarrow> [] | Some md \<Rightarrow> md);
               err = ReattachCNIInterface D (sbNamespace (sbMetadata sb)) (sbName (sbMetadata sb))
                       (ID cnt) (Pid cnt) (cfgGet md ''result'');
               l = issue (CallReattachCNIInterface (sbNamespace (sbMetadata sb)) (sbName (sbMetadata sb))
                            (ID cnt) (Pid cnt) (cfgGet md ''result'')) l
           in Returns (if err \<noteq> None
                       then logf LError ''unable to reattach CNI settings to container (%v): %v'' l
                       else l))
      else Returns l)"

definition lifecycleEventHandler :: "Deps \<Rightarrow> LXF \<Rightarrow> message \<Rightarrow> LXF outcome" where
  "lifecycleEventHandler D l message =
     (case message of
        MarshalFails \<Rightarrow> Returns (logf LError ''unable to marshal json event: %v'' l)
      | UnmarshalFails \<Rightarrow> Returns (logf LError ''unable to unmarshal to json event: %v'' l)
      | Event type' metadata \<Rightarrow>
          if type' \<noteq> ''lifecycle'' then Returns l
          else
            (case metadata of
               BadMetadata \<Rightarrow> Returns (logf LError ''unable to unmarshal to json lifecycle event: %v'' l)
             | EventLifecycle action source \<Rightarrow>
                 if action \<noteq> ''container-started'' then Returns l
                 else
                   let containerID = TrimPrefix source ''/1.0/containers/'';
                       r = GetContainer D l containerID;
                       l = (case r of Inl err \<Rightarrow> logf LDebug ''unable to GetContainer %v: %v'' l
                                    | Inr cnt \<Rightarrow> l);
                       cnt = (case r of Inl err \<Rightarrow> None | Inr cnt \<Rightarrow> Some cnt);
                       l = AddMonitorTask l cnt ''volumes'' 0 True
                   in (case cnt of
                         None \<Rightarrow> Panics NilDereference
                       | Some cnt \<Rightarrow>
                           (case Sandbox cnt of
                              None \<Rightarrow> Panics NilDereference
                            | Some sb \<Rightarrow> attachNetwork D l cnt sb))))"

subsection \<open>The volume reconciler (lines 525-573)\<close>

text \<open>
  The loop runs against an engine that changes under it, so each pass is given what the
  engine answers in that pass: the result of \<open>l.GetContainer\<close>, the result of
  \<open>l.server.GetContainerFile\<close> for a container id and a path, and the results of the two
  calls of \<open>l.UpdateContainer\<close>. The loop produces the sequence of its steps. The argument
  of \<open>remountMissingVolumes\<close> is the container its pointer refers to.
\<close>

record iteration =
  itGetContainer :: "error + Container"
  itGetContainerFile :: "string \<Rightarrow> string \<Rightarrow> error option"
  itUpdateMounted :: "error option"
  itUpdateAll :: "error option"

datatype step =
    Logged loglevel string
  | CalledGetContainer string
  | CalledGetContainerFile string string
  | Slept
  | CalledUpdateContainer string "Disk list"

text \<open>Lines 543-551 for one disk: a failed probe is logged, a good one appends the disk.\<close>

definition probeDisk :: "iteration \<Rightarrow> string \<Rightarrow> Disk \<Rightarrow> Disk list \<times> step list \<Rightarrow> Disk list \<times> step list" where
  "probeDisk it id' disk acc =
     (case itGetContainerFile it id' (Path disk) of
        Some err \<Rightarrow>
          (fst acc, snd acc @ [CalledGetContainerFile id' (Path disk),
             Logged LDebug ''remountMissingVolumes Container(%s) '%s' path: %s: %v. - attempting remounting''])
      | None \<Rightarrow> (fst acc @ [disk], snd acc @ [CalledGetContainerFile id' (Path disk)]))"

text \<open>
  The loop over the passes. The second component of the result says whether the function
  has returned; it is \<open>False\<close> when the given passes are used up and the loop is still
  running. \<open>mountedDisks\<close> is declared before the loop and is carried from pass to pass.
\<close>

fun remountLoop :: "string \<Rightarrow> Disk list \<Rightarrow> Disk list \<Rightarrow> iteration list \<Rightarrow> step list \<Rightarrow> step list \<times> bool" where
  "remountLoop id' allDisks mountedDisks [] tr = (tr, False)"
| "remountLoop id' allDisks mountedDisks (it # rest) tr =
     (case itGetContainer it of
        Inl err \<Rightarrow>
          (tr @ [CalledGetContainer id',
                 Logged LDebug ''remountMissingVolumes failed to update container info: %v'',
                 Logged LError ''cntInfo was nil''], True)
      | Inr cntInfo \<Rightarrow>
          if State cntInfo = ContainerStateExited \<or> State cntInfo = ContainerStateUnknown
          then (tr @ [CalledGetContainer id',
                      Logged LDebug ''state remountMissingVolumes: stale container''], True)
          else
            let probed = fold (probeDisk it (ID cntInfo)) (Disks cntInfo)
                           (mountedDisks, tr @ [CalledGetContainer id'])
            in if length (fst probed) = length allDisks then (snd probed, True)
               else
                 remountLoop id' allDisks (fst probed) rest
                   (snd probed @ [Slept, CalledUpdateContainer (ID cntInfo) (fst probed)] @
                    (case itUpdateMounted it of
                       Some err \<Rightarrow> [Logged LDebug ''Failed to update container without failed disks, %v'']
                     | None \<Rightarrow> []) @
                    [CalledUpdateContainer (ID cntInfo) allDisks] @
                    (case itUpdateAll it of
                       Some err \<Rightarrow> [Logged LDebug ''Failed to update container with all disks, %v'']
                     | None \<Rightarrow> [])))"

definition remountMissingVolumes :: "iteration list \<Rightarrow> Container \<Rightarrow> step list \<times> bool" where
  "remountMissingVolumes script cntInfo =
     remountLoop (ID cntInfo) (Disks cntInfo) [] script
       [Logged LDebug ''remountMissingVolumes triggered: %v'']"

subsection \<open>Concrete inputs\<close>

text \<open>
  One choice of the parameters, on which the model is run: keys under \<open>user.\<close>, the
  lowercase alphabet with padding, an image store that knows every image, device codecs
  for containers without devices, and a sandbox store that holds the sandbox \<open>pod1\<close>.
\<close>

definition podSandbox :: "NetworkMode \<Rightarrow> Sandbox" where
  "podSandbox mode =
     \<lparr> sbID = ''pod1'',
       sbMetadata = \<lparr>sbName = ''pod'', sbNamespace = ''default'', sbAttempt = 0, sbUID = ''uid1''\<rparr>,
       sbNetworkConfig = \<lparr>Mode = mode, ModeData = Some []\<rparr> \<rparr>"

definition exampleDeps :: Deps where
  "exampleDeps =
     \<lparr> cfgSchema = ''user.lxe.schema'',
       cfgIsCRI = ''user.cri'',
       cfgState = ''user.state'',
       cfgMetaName = ''user.metadata.name'',
       cfgMetaAttempt = ''user.metadata.attempt'',
       cfgCreatedAt = ''user.created_at'',
       cfgCloudInitNetworkConfig = ''user.network-config'',
       cfgLabels = ''user.labels'',
       cfgAnnotations = ''user.annotations'',
       SchemaVersionContainer = ''0.2'',
       ErrorNotFound = ''not found'',
       b32lowerEncoder = \<lparr>encodeAlphabet = ''abcdefghijklmnopqrstuvwxyz234567'',
                           padChar = Some (CHR ''='')\<rparr>,
       parseImage = (\<lambda>image. Inr image),
       Hash = (\<lambda>imageID. Inr (imageID, True)),
       AddDisksToMap = (\<lambda>devices disks. (devices, None)),
       AddProxiesToMap = (\<lambda>devices proxies. (devices, None)),
       AddBlocksToMap = (\<lambda>devices blocks. (devices, None)),
       AddNicsToMap = (\<lambda>devices nics. (devices, None)),
       GetProxiesFromMap = (\<lambda>devices. Inr []),
       GetDisksFromMap = (\<lambda>devices. Inr []),
       GetBlocksFromMap = (\<lambda>devices. Inr []),
       GetNicsFromMap = (\<lambda>devices. Inr []),
       GetSandbox = (\<lambda>id'. if id' = ''pod1'' then Inr (podSandbox NetworkCNI)
                              else Inl (External ''not found'')),
       saveSandbox = (\<lambda>sb. None),
       AttachCNIInterface = (\<lambda>ns name id' pid. (''{}'', None)),
       ReattachCNIInterface = (\<lambda>ns name id' pid result. None) \<rparr>"

text \<open>A container as a caller hands it to \<open>CreateContainer\<close>: no id yet, one environment
  variable.\<close>

definition newContainer :: "string \<Rightarrow> Sandbox option \<Rightarrow> Container" where
  "newContainer name sb =
     \<lparr> ID = [], Proxies = [], Disks = [], Blocks = [], Nics = [],
       Labels = [], Annotations = [], Config = [],
       LogPath = ''/var/log/pods/c.log'',
       Metadata = \<lparr>Name = name, Attempt = 0\<rparr>,
       State = [], Pid = 0, StartedAt = 0, CreatedAt = 0, Privileged = False,
       CloudInitUserData = [], CloudInitMetaData = [], CloudInitNetworkConfig = [],
       Network = [], EnvironmentVars = [(''name'', ''x'')],
       Stats = \<lparr>MemoryUsage = 0, CPUUsage = 0, FilesystemUsage = 0\<rparr>,
       Sandbox = sb, Image = ''busybox'' \<rparr>"

text \<open>The string that \<open>CreateID\<close> hashes for the container \<open>nginx\<close> in the sandbox \<open>pod1\<close>.\<close>

definition exampleName :: string where
  "exampleName = ''k8s-nginx-pod-default-0-uid1''"

text \<open>An \<open>LXF\<close> over an engine without containers.\<close>

definition emptyLXF :: LXF where
  "emptyLXF = \<lparr>server = Map.empty, cntMonitorChan = [], clock = 1000, calls = [], logs = []\<rparr>"

text \<open>The config that the engine holds for a container, empty when there is none.\<close>

definition persistedConfig :: "LXF \<Rightarrow> string \<Rightarrow> cfgmap" where
  "persistedConfig l id' = (case server l id' of None \<Rightarrow> [] | Some (ct, st) \<Rightarrow> apiConfig ct)"

text \<open>An \<open>LXF\<close> over an engine that holds one object, with the given name, config and status
  code, in the profile \<open>pod1\<close>.\<close>

definition engineWith :: "string \<Rightarrow> cfgmap \<Rightarrow> StatusCode \<Rightarrow> LXF" where
  "engineWith name config status =
     emptyLXF\<lparr>server := [name \<mapsto>
       (\<lparr>apiName = name, apiProfiles = [''pod1''], apiConfig = config, apiDevices = []\<rparr>,
        \<lparr>stStatusCode = status, stPid = 0, stCPUUsage = 0, stMemoryUsage = 0, stDisk = [],
         stNetwork = []\<rparr>)]\<rparr>"

text \<open>
  The engine object and the engine state that \<open>saveContainer\<close> and the engine leave for a
  container of the sandbox \<open>pod1\<close> without devices, given its name, config and status code.
\<close>

definition podObject :: "string \<Rightarrow> cfgmap \<Rightarrow> api_Container" where
  "podObject name config =
     \<lparr>apiName = name, apiProfiles = [''pod1'', ''default''], apiConfig = config, apiDevices = []\<rparr>"

definition engineState :: "StatusCode \<Rightarrow> api_ContainerState" where
  "engineState status =
     \<lparr>stStatusCode = status, stPid = 0, stCPUUsage = 0, stMemoryUsage = 0, stDisk = [],
      stNetwork = []\<rparr>"

text \<open>The config of the container \<open>nginx\<close> as persisted at creation, after the first start,
  and after an update of the started container.\<close>

definition configAtCreation :: cfgmap where
  "configAtCreation =
     [(''user.state'', ''created''), (''user.created_at'', ''1000''), (''user.started_at'', ''0''),
      (''security.privileged'', ''false''), (''user.log_path'', ''/var/log/pods/c.log''),
      (''user.cri'', ''true''), (''user.metadata.name'', ''nginx''),
      (''user.metadata.attempt'', ''0''), (''volatile.base_image'', ''busybox''),
      (''boot.autostart'', ''true''), (''environment.name'', ''x''), (''user.lxe.schema'', ''0.2'')]"

definition configAfterStart :: cfgmap where
  "configAfterStart =
     [(''user.created_at'', ''1000''), (''user.started_at'', ''1000''),
      (''security.privileged'', ''false''), (''user.log_path'', ''/var/log/pods/c.log''),
      (''user.cri'', ''true''), (''user.metadata.name'', ''nginx''),
      (''user.metadata.attempt'', ''0''), (''volatile.base_image'', ''busybox''),
      (''boot.autostart'', ''true''), (''environment.name'', ''x''), (''user.lxe.schema'', ''0.2'')]"

definition configAfterUpdate :: cfgmap where
  "configAfterUpdate =
     [(''user.state'', ''created''), (''user.created_at'', ''1000''), (''user.started_at'', ''1000''),
      (''security.privileged'', ''false''), (''user.log_path'', ''/var/log/pods/c.log''),
      (''user.cri'', ''true''), (''user.metadata.name'', ''nginx''),
      (''user.metadata.attempt'', ''0''), (''volatile.base_image'', ''busybox''),
      (''boot.autostart'', ''true''), (''environment.ame'', ''x''), (''environment.name'', ''x''),
      (''user.lxe.schema'', ''0.2'')]"

text \<open>The container that \<open>GetContainer\<close> reads back from the config after the first start.\<close>

definition startedContainer :: "string \<Rightarrow> Container" where
  "startedContainer id' =
     \<lparr> ID = id', Proxies = [], Disks = [], Blocks = [], Nics = [],
       Labels = [], Annotations = [],
       Config = [(''boot.autostart'', ''true''), (''environment.name'', ''x'')],
       LogPath = ''/var/log/pods/c.log'',
       Metadata = \<lparr>Name = ''nginx'', Attempt = 0\<rparr>,
       State = ''running'', Pid = 0, StartedAt = 1000, CreatedAt = 1000, Privileged = False,
       CloudInitUserData = [], CloudInitMetaData = [], CloudInitNetworkConfig = [],
       Network = [], EnvironmentVars = [(''ame'', ''x'')],
       Stats = \<lparr>MemoryUsage = 0, CPUUsage = 0, FilesystemUsage = 0\<rparr>,
       Sandbox = Some (podSandbox NetworkCNI), Image = ''busybox'' \<rparr>"

text \<open>The value a function returned, if it did not panic.\<close>

definition returned :: "'a outcome \<Rightarrow> 'a option" where
  "returned r = (case r of Panics p \<Rightarrow> None | Returns x \<Rightarrow> Some x)"

text \<open>The steps of the reconciler other than log lines, and the probes that a pass answers
  without error.\<close>

fun isCall :: "step \<Rightarrow> bool" where
  "isCall (Logged lvl fmt) = False"
| "isCall s = True"

definition confirmed :: "iteration \<Rightarrow> string \<Rightarrow> Disk list \<Rightarrow> Disk list" where
  "confirmed it id' disks = filter (\<lambda>disk. itGetContainerFile it id' (Path disk) = None) disks"

text \<open>The steps of probing a list of disks in a pass: one call per disk, followed by a log
  line where the probe fails.\<close>

definition probeSteps :: "iteration \<Rightarrow> string \<Rightarrow> Disk list \<Rightarrow> step list" where
  "probeSteps it id' disks =
     concat (map (\<lambda>disk. CalledGetContainerFile id' (Path disk) #
                    (if itGetContainerFile it id' (Path disk) = None then []
                     else [Logged LDebug ''remountMissingVolumes Container(%s) '%s' path: %s: %v. - attempting remounting'']))
                 disks)"

text \<open>The steps of lines 557-571 in a pass: the sleep and the two update calls, each
  followed by a log line where it fails.\<close>

definition repairSteps :: "iteration \<Rightarrow> string \<Rightarrow> Disk list \<Rightarrow> Disk list \<Rightarrow> step list" where
  "repairSteps it id' mountedDisks allDisks =
     [Slept, CalledUpdateContainer id' mountedDisks] @
     (if itUpdateMounted it = None then []
      else [Logged LDebug ''Failed to update container without failed disks, %v'']) @
     [CalledUpdateContainer id' allDisks] @
     (if itUpdateAll it = None then []
      else [Logged LDebug ''Failed to update container with all disks, %v''])"

text \<open>
  A running container \<open>c1\<close> with three disks, a pass in which the probe of \<open>/mnt/c\<close> fails,
  a pass in which every probe succeeds, and a pass in which the reload fails.
\<close>

definition volumeContainer :: Container where
  "volumeContainer =
     (startedContainer ''c1'')\<lparr>Disks := [\<lparr>Path = ''/mnt/a''\<rparr>, \<lparr>Path = ''/mnt/b''\<rparr>, \<lparr>Path = ''/mnt/c''\<rparr>]\<rparr>"

definition passTwoOfThree :: iteration where
  "passTwoOfThree =
     \<lparr> itGetContainer = Inr volumeContainer,
       itGetContainerFile = (\<lambda>id' path. if path = ''/mnt/c'' then Some (External ''not found'') else None),
       itUpdateMounted = None, itUpdateAll = None \<rparr>"

definition passAllThree :: iteration where
  "passAllThree =
     \<lparr> itGetContainer = Inr volumeContainer,
       itGetContainerFile = (\<lambda>id' path. None),
       itUpdateMounted = None, itUpdateAll = None \<rparr>"

definition passReloadFails :: iteration where
  "passReloadFails =
     \<lparr> itGetContainer = Inl (External ''connection refused''),
       itGetContainerFile = (\<lambda>id' path. None),
       itUpdateMounted = None, itUpdateAll = None \<rparr>"

definition passAllFail :: iteration where
  "passAllFail =
     \<lparr> itGetContainer = Inr volumeContainer,
       itGetContainerFile = (\<lambda>id' path. Some (External ''not found'')),
       itUpdateMounted = Some (External ''busy''), itUpdateAll = Some (External ''busy'') \<rparr>"

section \<open>Properties\<close>

subsection \<open>State derivation\<close>

lemma status_codes_distinct:
  "Running \<noteq> Stopped" "Running \<noteq> Aborting" "Running \<noteq> Stopping"
  "Stopped \<noteq> Aborting" "Stopped \<noteq> Stopping" "Aborting \<noteq> Stopping"
  by (simp_all add: Running_def Stopped_def Aborting_def Stopping_def)

lemma states_distinct:
  "ContainerStateCreated \<noteq> ContainerStateRunning" "ContainerStateCreated \<noteq> ContainerStateExited"
  "ContainerStateCreated \<noteq> ContainerStateUnknown" "ContainerStateRunning \<noteq> ContainerStateExited"
  "ContainerStateRunning \<noteq> ContainerStateUnknown" "ContainerStateExited \<noteq> ContainerStateUnknown"
  by (simp_all add: ContainerStateCreated_def ContainerStateRunning_def ContainerStateExited_def
        ContainerStateUnknown_def)

text \<open>The state that \<open>toContainer\<close> reports is \<open>deriveState\<close> of the engine's status code and
  of the two-valued read of the state marker.\<close>

lemma toContainer_State:
  assumes "toContainer D l ct = Inr c"
  shows "\<exists>state. server_GetContainerState l (apiName ct) = Inr state \<and>
           State c = deriveState (stStatusCode state)
                       (snd (lookup2 (apiConfig ct) (cfgState D)))
                       (fst (lookup2 (apiConfig ct) (cfgState D)))"
  using assms
  by (auto simp: toContainer_def orReturn_def split: if_splits sum.splits)

text \<open>
  C1. The derived state depends on the status code, the presence flag of the marker and
  the marker's value only, and for every such triple: it is Running when the code is
  Running; Created when the code is Stopped, Aborting or Stopping and the marker is
  present with the value "created"; Exited when the code is one of these three and the
  marker is absent or has another value; Unknown for every other code; and it is Created
  in the second case only.
\<close>

theorem deriveState_cases:
  "(statusCode = Running \<longrightarrow> deriveState statusCode has state = ContainerStateRunning) \<and>
   (statusCode \<in> {Stopped, Aborting, Stopping} \<and> has \<and> state = ''created'' \<longrightarrow>
      deriveState statusCode has state = ContainerStateCreated) \<and>
   (statusCode \<in> {Stopped, Aborting, Stopping} \<and> \<not> (has \<and> state = ''created'') \<longrightarrow>
      deriveState statusCode has state = ContainerStateExited) \<and>
   (statusCode \<notin> {Running, Stopped, Aborting, Stopping} \<longrightarrow>
      deriveState statusCode has state = ContainerStateUnknown) \<and>
   (deriveState statusCode has state = ContainerStateCreated \<longrightarrow>
      statusCode \<in> {Stopped, Aborting, Stopping} \<and> has \<and> state = ''created'')"
proof -
  have created: "ContainerStateCreated = ''created''"
    by (simp add: ContainerStateCreated_def)
  show ?thesis
    unfolding deriveState_def created [symmetric]
    using status_codes_distinct states_distinct by auto
qed

theorem deriveState_cases_witness:
  "deriveState Running False [] = ContainerStateRunning \<and>
   deriveState Stopped True ''created'' = ContainerStateCreated \<and>
   deriveState Stopped False [] = ContainerStateExited \<and>
   deriveState Aborting True ''created'' = ContainerStateCreated \<and>
   deriveState 112 True ''created'' = ContainerStateUnknown \<and>
   deriveState Stopping True ''exited'' \<noteq> ContainerStateCreated"
  using deriveState_cases [of Running False "[]"]
        deriveState_cases [of Stopped True "''created''"]
        deriveState_cases [of Stopped False "[]"]
        deriveState_cases [of Aborting True "''created''"]
        deriveState_cases [of 112 True "''created''"]
        deriveState_cases [of Stopping True "''exited''"]
  by (simp add: Running_def Stopped_def Aborting_def Stopping_def
        states_distinct states_distinct [symmetric])

subsection \<open>Validation in \<open>CreateContainer\<close>\<close>

text \<open>
  C7. For every container whose sandbox is in host-network mode and whose privileged flag
  is false, \<open>CreateContainer\<close> returns the error of line 102 and leaves the state of the
  \<open>LXF\<close> as it was: the engine's objects are unchanged and no create or update call is
  issued. For a container with a nil sandbox it returns the error of line 95, again with
  the state unchanged.
\<close>

theorem CreateContainer_validation:
  "(Sandbox c = Some sb \<and> Mode (sbNetworkConfig sb) = NetworkHost \<and> \<not> Privileged c \<longrightarrow>
      CreateContainer D l c = Returns (Some (Errorf errHostNetwork), c\<lparr>CreatedAt := clock l\<rparr>, l)) \<and>
   (Sandbox c = None \<longrightarrow>
      CreateContainer D l c = Returns (Some (Errorf ''container needs a sandbox''), c, l))"
  by (simp add: CreateContainer_def)

theorem CreateContainer_validation_witness:
  "CreateContainer exampleDeps emptyLXF (newContainer ''nginx'' (Some (podSandbox NetworkHost))) =
     Returns (Some (Errorf errHostNetwork),
              (newContainer ''nginx'' (Some (podSandbox NetworkHost)))\<lparr>CreatedAt := 1000\<rparr>, emptyLXF) \<and>
   CreateContainer exampleDeps emptyLXF (newContainer ''nginx'' None) =
     Returns (Some (Errorf ''container needs a sandbox''), newContainer ''nginx'' None, emptyLXF)"
  using CreateContainer_validation [of "newContainer ''nginx'' (Some (podSandbox NetworkHost))"
          "podSandbox NetworkHost" exampleDeps emptyLXF]
        CreateContainer_validation [of "newContainer ''nginx'' None" "podSandbox NetworkHost"
          exampleDeps emptyLXF]
  by (simp add: newContainer_def podSandbox_def emptyLXF_def)

subsection \<open>Running the model on the concrete inputs\<close>

text \<open>The fields of the concrete inputs, as rewrite rules, so that an evaluation leaves the
  records folded.\<close>

lemmas cfg_consts = cfgLogPath_def cfgSecurityPrivileged_def
        cfgVolatileBaseImage_def cfgStartedAt_def cfgCloudInitUserData_def cfgCloudInitMetaData_def
        cfgEnvironmentPrefix_def cfgAutoStartOnBoot_def

lemma FormatUint_0: "FormatUint 0 = ''0''"
  by (simp add: FormatUint.simps digitChar_def)

lemma FormatUint_1000: "FormatUint 1000 = ''1000''"
  by (simp add: FormatUint.simps digitChar_def)

lemma exampleDeps_fields:
  "cfgSchema exampleDeps = ''user.lxe.schema''"
  "cfgIsCRI exampleDeps = ''user.cri''"
  "cfgState exampleDeps = ''user.state''"
  "cfgMetaName exampleDeps = ''user.metadata.name''"
  "cfgMetaAttempt exampleDeps = ''user.metadata.attempt''"
  "cfgCreatedAt exampleDeps = ''user.created_at''"
  "cfgCloudInitNetworkConfig exampleDeps = ''user.network-config''"
  "cfgLabels exampleDeps = ''user.labels''"
  "cfgAnnotations exampleDeps = ''user.annotations''"
  "SchemaVersionContainer exampleDeps = ''0.2''"
  "ErrorNotFound exampleDeps = ''not found''"
  "parseImage exampleDeps img = Inr img"
  "Hash exampleDeps imageID = Inr (imageID, True)"
  "AddDisksToMap exampleDeps devices disks = (devices, None)"
  "AddProxiesToMap exampleDeps devices proxies = (devices, None)"
  "AddBlocksToMap exampleDeps devices blocks = (devices, None)"
  "AddNicsToMap exampleDeps devices nics = (devices, None)"
  "GetProxiesFromMap exampleDeps devices = Inr []"
  "GetDisksFromMap exampleDeps devices = Inr []"
  "GetBlocksFromMap exampleDeps devices = Inr []"
  "GetNicsFromMap exampleDeps devices = Inr []"
  "GetSandbox exampleDeps ''pod1'' = Inr (podSandbox NetworkCNI)"
  by (simp_all add: exampleDeps_def)

lemma newContainer_fields:
  "ID (newContainer name sb) = []"
  "Disks (newContainer name sb) = []"
  "Proxies (newContainer name sb) = []"
  "Blocks (newContainer name sb) = []"
  "Nics (newContainer name sb) = []"
  "Labels (newContainer name sb) = []"
  "Annotations (newContainer name sb) = []"
  "Config (newContainer name sb) = []"
  "LogPath (newContainer name sb) = ''/var/log/pods/c.log''"
  "Name (Metadata (newContainer name sb)) = name"
  "Attempt (Metadata (newContainer name sb)) = 0"
  "StartedAt (newContainer name sb) = 0"
  "Privileged (newContainer name sb) = False"
  "CloudInitUserData (newContainer name sb) = []"
  "CloudInitMetaData (newContainer name sb) = []"
  "CloudInitNetworkConfig (newContainer name sb) = []"
  "EnvironmentVars (newContainer name sb) = [(''name'', ''x'')]"
  "Sandbox (newContainer name sb) = sb"
  "Image (newContainer name sb) = ''busybox''"
  by (simp_all add: newContainer_def)

lemma podSandbox_fields:
  "sbID (podSandbox mode) = ''pod1''"
  "Mode (sbNetworkConfig (podSandbox mode)) = mode"
  by (simp_all add: podSandbox_def)

lemma volumeContainer_fields:
  "ID volumeContainer = ''c1''"
  "Disks volumeContainer = [\<lparr>Path = ''/mnt/a''\<rparr>, \<lparr>Path = ''/mnt/b''\<rparr>, \<lparr>Path = ''/mnt/c''\<rparr>]"
  "State volumeContainer = ''running''"
  by (simp_all add: volumeContainer_def startedContainer_def)

lemma pass_fields:
  "itGetContainer passTwoOfThree = Inr volumeContainer"
  "itGetContainerFile passTwoOfThree id' path = (if path = ''/mnt/c'' then Some (External ''not found'') else None)"
  "itUpdateMounted passTwoOfThree = None" "itUpdateAll passTwoOfThree = None"
  "itGetContainer passAllThree = Inr volumeContainer"
  "itGetContainerFile passAllThree id' path = None"
  "itUpdateMounted passAllThree = None" "itUpdateAll passAllThree = None"
  "itGetContainer passReloadFails = Inl (External ''connection refused'')"
  "itGetContainer passAllFail = Inr volumeContainer"
  "itGetContainerFile passAllFail id' path = Some (External ''not found'')"
  "itUpdateMounted passAllFail = Some (External ''busy'')"
  "itUpdateAll passAllFail = Some (External ''busy'')"
  by (simp_all add: passTwoOfThree_def passAllThree_def passReloadFails_def passAllFail_def)

lemmas state_names = ContainerStateCreated_def ContainerStateRunning_def ContainerStateExited_def
  ContainerStateUnknown_def

lemmas read_defs = GetContainer_def server_GetContainer_def toContainer_def orReturn_def
        server_GetContainerState_def exampleDeps_fields podObject_def engineState_def
        cfgGet_def lookup2_def ParseBool_def ParseUint_def ParseInt_def
        isDigit_def digitVal_def cfg_consts StripedPrefixMap_def UnreservedMap_def IsReserved_def
        containerConfigStore_def HasPrefix_def TrimLeft_def extractEnvVars_def deriveState_def

subsection \<open>The identifier\<close>

text \<open>The digest has 16 bytes, so its encoding has two full groups of eight characters
  before the slice ends.\<close>

lemma length_le_bytes: "length (le_bytes k n) = k"
  by (simp add: le_bytes_def)

lemma length_md5_Sum: "length (md5_Sum msg) = 16"
  by (simp add: md5_Sum_def length_le_bytes split: prod.splits)

lemma length_b32_quantum: "length (b32_quantum bs) = 8"
  by (simp add: b32_quantum_def Let_def)

lemma b32_quantum_lt: "v \<in> set (b32_quantum bs) \<Longrightarrow> v < 32"
  by (auto simp: b32_quantum_def Let_def)

lemma EncodeToString_block:
  assumes "5 \<le> length src"
  shows "EncodeToString enc src =
           map (\<lambda>v. encodeAlphabet enc ! v) (b32_quantum (take 5 src)) @ EncodeToString enc (drop 5 src)"
proof -
  from assms have "src \<noteq> []" by auto
  with assms show ?thesis by (subst EncodeToString.simps) simp
qed

lemma take15_EncodeToString:
  assumes "length src = 16"
  shows "take 15 (EncodeToString enc src) =
           map (\<lambda>v. encodeAlphabet enc ! v) (b32_quantum (take 5 src) @ take 7 (b32_quantum (take 5 (drop 5 src))))"
proof -
  have "EncodeToString enc src =
          map (\<lambda>v. encodeAlphabet enc ! v) (b32_quantum (take 5 src)) @
          (map (\<lambda>v. encodeAlphabet enc ! v) (b32_quantum (take 5 (drop 5 src))) @
           EncodeToString enc (drop 5 (drop 5 src)))"
    using assms by (simp add: EncodeToString_block)
  then show ?thesis
    by (simp add: length_b32_quantum take_map)
qed

lemma length_take15_EncodeToString:
  assumes "length src = 16"
  shows "length (take 15 (EncodeToString enc src)) = 15"
  by (simp add: take15_EncodeToString [OF assms] length_b32_quantum)

lemma set_take15_EncodeToString:
  assumes "length src = 16" and "length (encodeAlphabet enc) = 32"
  shows "set (take 15 (EncodeToString enc src)) \<subseteq> set (encodeAlphabet enc)"
proof
  fix x assume "x \<in> set (take 15 (EncodeToString enc src))"
  then obtain v where v: "x = encodeAlphabet enc ! v"
    and "v \<in> set (b32_quantum (take 5 src)) \<or> v \<in> set (take 7 (b32_quantum (take 5 (drop 5 src))))"
    unfolding take15_EncodeToString [OF assms(1)] by auto
  then have "v < 32"
    by (auto dest: b32_quantum_lt in_set_takeD)
  with assms(2) v show "x \<in> set (encodeAlphabet enc)" by simp
qed

lemma CreateID_Returns:
  assumes "Sandbox c = Some sb" and "Name (Metadata c) = b # rest"
  shows "CreateID D c = Returns (string_of_byte b @ take 15 (EncodeToString (b32lowerEncoder D)
           (md5_Sum (bytes (Join [''k8s'', Name (Metadata c), sbName (sbMetadata sb),
              sbNamespace (sbMetadata sb), FormatUint (unat (sbAttempt (sbMetadata sb))),
              sbUID (sbMetadata sb)] ''-'')))))"
proof -
  have "\<not> length (EncodeToString (b32lowerEncoder D) (md5_Sum msg)) < 15" for msg
  proof -
    have "length (take 15 (EncodeToString (b32lowerEncoder D) (md5_Sum msg))) = 15"
      by (rule length_take15_EncodeToString) (rule length_md5_Sum)
    then show ?thesis
      by (simp add: min_def split: if_splits)
  qed
  with assms show ?thesis
    by (simp add: CreateID_def Let_def)
qed

lemma CreateID_encoded:
  assumes "Sandbox c = Some sb" and "Name (Metadata c) = b # rest"
  shows "\<exists>enc. CreateID D c = Returns (string_of_byte b @ enc) \<and> length enc = 15"
  using CreateID_Returns [OF assms] length_take15_EncodeToString [OF length_md5_Sum]
  by blast

text \<open>
  One identifier in full: the MD5 digest of \<open>k8s-nginx-pod-default-0-uid1\<close>, computed step by
  step, and its base-32 encoding.
\<close>

lemma replicate_numeral_unfold: "replicate (numeral k) x = x # replicate (pred_numeral k) x"
  by (simp add: numeral_eq_Suc)

lemma md5_pad_example: "md5_pad (bytes exampleName) = [107, 56, 115, 45, 110, 103, 105, 110, 120, 45, 112, 111, 100, 45, 100, 101, 102, 97, 117, 108, 116, 45, 48, 45, 117, 105, 100, 49, 128, 0, 0, 0, 0, 0, 0, 0, 0, 0, 0, 0, 0, 0, 0, 0, 0, 0, 0, 0, 0, 0, 0, 0, 0, 0, 0, 0, 224, 0, 0, 0, 0, 0, 0, 0]"
  by (simp add: exampleName_def bytes_def md5_pad_def le_bytes_def upt_rec replicate_numeral_unfold)

lemma md5_words_example: "md5_words [107, 56, 115, 45, 110, 103, 105, 110, 120, 45, 112, 111, 100, 45, 100, 101, 102, 97, 117, 108, 116, 45, 48, 45, 117, 105, 100, 49, 128, 0, 0, 0, 0, 0, 0, 0, 0, 0, 0, 0, 0, 0, 0, 0, 0, 0, 0, 0, 0, 0, 0, 0, 0, 0, 0, 0, 224, 0, 0, 0, 0, 0, 0, 0] = [0x2d73386b, 0x6e69676e, 0x6f702d78, 0x65642d64, 0x6c756166, 0x2d302d74, 0x31646975, 0x00000080, 0x00000000, 0x00000000, 0x00000000, 0x00000000, 0x00000000, 0x00000000, 0x000000e0, 0x00000000]"
  by (simp add: le32_def)

lemma md5_round1_example: "fold (md5_step [0x2d73386b, 0x6e69676e, 0x6f702d78, 0x65642d64, 0x6c756166, 0x2d302d74, 0x31646975, 0x00000080, 0x00000000, 0x00000000, 0x00000000, 0x00000000, 0x00000000, 0x00000000, 0x000000e0, 0x00000000]) [0, 1, 2, 3, 4, 5, 6, 7, 8, 9, 10, 11, 12, 13, 14, 15] (0x67452301, 0xefcdab89, 0x98badcfe, 0x10325476) = (0x6cb3de74, 0x3fd69e09, 0x518846a2, 0x31e29d2d)"
  by (simp add: md5_step_def md5_K_def md5_s_def rotl32_def Let_def)

lemma md5_round2_example: "fold (md5_step [0x2d73386b, 0x6e69676e, 0x6f702d78, 0x65642d64, 0x6c756166, 0x2d302d74, 0x31646975, 0x00000080, 0x00000000, 0x00000000, 0x00000000, 0x00000000, 0x00000000, 0x00000000, 0x000000e0, 0x00000000]) [16, 17, 18, 19, 20, 21, 22, 23, 24, 25, 26, 27, 28, 29, 30, 31] (0x6cb3de74, 0x3fd69e09, 0x518846a2, 0x31e29d2d) = (0xcf8439ad, 0x3c5380bc, 0xba1e1320, 0xac11cbc0)"
  by (simp add: md5_step_def md5_K_def md5_s_def rotl32_def Let_def)

lemma md5_round3_example: "fold (md5_step [0x2d73386b, 0x6e69676e, 0x6f702d78, 0x65642d64, 0x6c756166, 0x2d302d74, 0x31646975, 0x00000080, 0x00000000, 0x00000000, 0x00000000, 0x00000000, 0x00000000, 0x00000000, 0x000000e0, 0x00000000]) [32, 33, 34, 35, 36, 37, 38, 39, 40, 41, 42, 43, 44, 45, 46, 47] (0xcf8439ad, 0x3c5380bc, 0xba1e1320, 0xac11cbc0) = (0x4b33f2bb, 0x77a92c6e, 0x8b70ba97, 0x5ab71a7a)"
  by (simp add: md5_step_def md5_K_def md5_s_def rotl32_def Let_def)

lemma md5_round4_example: "fold (md5_step [0x2d73386b, 0x6e69676e, 0x6f702d78, 0x65642d64, 0x6c756166, 0x2d302d74, 0x31646975, 0x00000080, 0x00000000, 0x00000000, 0x00000000, 0x00000000, 0x00000000, 0x00000000, 0x000000e0, 0x00000000]) [48, 49, 50, 51, 52, 53, 54, 55, 56, 57, 58, 59, 60, 61, 62, 63] (0x4b33f2bb, 0x77a92c6e, 0x8b70ba97, 0x5ab71a7a) = (0x091e4fcc, 0x31cefc92, 0x4877636f, 0x99668f1f)"
  by (simp add: md5_step_def md5_K_def md5_s_def rotl32_def Let_def)

lemma upt64_rounds: "[0..<64] = [0, 1, 2, 3, 4, 5, 6, 7, 8, 9, 10, 11, 12, 13, 14, 15] @ [16, 17, 18, 19, 20, 21, 22, 23, 24, 25, 26, 27, 28, 29, 30, 31] @ [32, 33, 34, 35, 36, 37, 38, 39, 40, 41, 42, 43, 44, 45, 46, 47] @ [48, 49, 50, 51, 52, 53, 54, 55, 56, 57, 58, 59, 60, 61, 62, 63]"
  by (simp add: upt_rec)

lemma md5_Sum_example:
  "md5_Sum (bytes exampleName) = [205, 114, 99, 112, 27, 168, 156, 33, 109, 64, 50, 225, 149, 227, 152, 169]"
proof -
  have blocks: "md5_blocks st (md5_pad (bytes exampleName)) = md5_block st (md5_pad (bytes exampleName))" for st
    unfolding md5_pad_example
    by (subst md5_blocks.simps, simp, subst md5_blocks.simps, simp)
  have block: "md5_block (0x67452301, 0xefcdab89, 0x98badcfe, 0x10325476) (md5_pad (bytes exampleName)) =
      (0x706372cd, 0x219ca81b, 0xe132406d, 0xa998e395)"
    unfolding md5_pad_example md5_block_def md5_words_example upt64_rounds fold_append comp_def
      md5_round1_example md5_round2_example md5_round3_example md5_round4_example
    by simp
  show ?thesis
    unfolding md5_Sum_def blocks block
    by (simp add: le_bytes_def upt_rec)
qed

lemma EncodeToString_example:
  "take 15 (EncodeToString (b32lowerEncoder exampleDeps)
      [205, 114, 99, 112, 27, 168, 156, 33, 109, 64, 50, 225, 149, 227, 152, 169]) = ''zvzgg4a3vcocc3k''"
  by (simp add: EncodeToString.simps b32_quantum_def exampleDeps_def upt_rec Let_def)

lemma CreateID_example:
  "CreateID exampleDeps (newContainer ''nginx'' (Some (podSandbox NetworkCNI))) = Returns ''nzvzgg4a3vcocc3k''"
proof -
  have fmt: "FormatUint 0 = ''0''"
    by (simp add: FormatUint.simps digitChar_def)
  have s: "Sandbox (newContainer ''nginx'' (Some (podSandbox NetworkCNI))) = Some (podSandbox NetworkCNI)"
    and n: "Name (Metadata (newContainer ''nginx'' (Some (podSandbox NetworkCNI)))) = CHR ''n'' # ''ginx''"
    by (simp_all add: newContainer_def)
  show ?thesis
    unfolding CreateID_Returns [OF s n]
    by (simp add: newContainer_fields podSandbox_def fmt md5_Sum_example [unfolded exampleName_def]
          EncodeToString_example string_of_byte_def)
qed

text \<open>
  C9, as amended. For every container with a sandbox whose name begins with an ASCII byte,
  and for an encoder with a 32-character alphabet: \<open>CreateID\<close> returns; its output has 16
  bytes; the first is the first byte of the container name; the other 15 are drawn from
  the encoder's alphabet. And the output is the same for any two containers that agree on
  the container name and on the sandbox's name, namespace, attempt and UID (the owner tag
  is the constant \<open>k8s\<close>).
\<close>

theorem CreateID_shape:
  assumes "Sandbox c = Some sb" and "Name (Metadata c) = b # rest" and "(of_char b :: nat) < 128"
    and "length (encodeAlphabet (b32lowerEncoder D)) = 32"
  shows "(\<exists>out. CreateID D c = Returns out \<and> length out = 16 \<and> hd out = b \<and>
            set (tl out) \<subseteq> set (encodeAlphabet (b32lowerEncoder D))) \<and>
         (\<forall>c' sb'. Sandbox c' = Some sb' \<and> Name (Metadata c') = Name (Metadata c) \<and>
              sbName (sbMetadata sb') = sbName (sbMetadata sb) \<and>
              sbNamespace (sbMetadata sb') = sbNamespace (sbMetadata sb) \<and>
              sbAttempt (sbMetadata sb') = sbAttempt (sbMetadata sb) \<and>
              sbUID (sbMetadata sb') = sbUID (sbMetadata sb) \<longrightarrow>
            CreateID D c' = CreateID D c)"
proof
  let ?enc = "take 15 (EncodeToString (b32lowerEncoder D)
           (md5_Sum (bytes (Join [''k8s'', Name (Metadata c), sbName (sbMetadata sb),
              sbNamespace (sbMetadata sb), FormatUint (unat (sbAttempt (sbMetadata sb))),
              sbUID (sbMetadata sb)] ''-''))))"
  have out: "CreateID D c = Returns (b # ?enc)"
    using CreateID_Returns [OF assms(1,2)] assms(3) by (simp add: string_of_byte_def)
  have "length ?enc = 15"
    by (rule length_take15_EncodeToString) (rule length_md5_Sum)
  moreover have "set ?enc \<subseteq> set (encodeAlphabet (b32lowerEncoder D))"
    by (rule set_take15_EncodeToString) (rule length_md5_Sum, rule assms(4))
  ultimately show "\<exists>out. CreateID D c = Returns out \<and> length out = 16 \<and> hd out = b \<and>
            set (tl out) \<subseteq> set (encodeAlphabet (b32lowerEncoder D))"
    using out by simp
next
  show "\<forall>c' sb'. Sandbox c' = Some sb' \<and> Name (Metadata c') = Name (Metadata c) \<and>
              sbName (sbMetadata sb') = sbName (sbMetadata sb) \<and>
              sbNamespace (sbMetadata sb') = sbNamespace (sbMetadata sb) \<and>
              sbAttempt (sbMetadata sb') = sbAttempt (sbMetadata sb) \<and>
              sbUID (sbMetadata sb') = sbUID (sbMetadata sb) \<longrightarrow>
            CreateID D c' = CreateID D c"
    using assms(1) by (simp add: CreateID_def)
qed

theorem CreateID_shape_witness:
  "(\<exists>out. CreateID exampleDeps (newContainer ''nginx'' (Some (podSandbox NetworkCNI))) = Returns out \<and>
      length out = 16 \<and> hd out = CHR ''n'' \<and>
      set (tl out) \<subseteq> set (encodeAlphabet (b32lowerEncoder exampleDeps))) \<and>
   CreateID exampleDeps ((newContainer ''nginx'' (Some (podSandbox NetworkCNI)))\<lparr>Privileged := True\<rparr>) =
     CreateID exampleDeps (newContainer ''nginx'' (Some (podSandbox NetworkCNI)))"
proof -
  let ?c = "newContainer ''nginx'' (Some (podSandbox NetworkCNI))"
  have h1: "Sandbox ?c = Some (podSandbox NetworkCNI)"
    and h2: "Name (Metadata ?c) = CHR ''n'' # ''ginx''"
    by (simp_all add: newContainer_fields)
  have h3: "(of_char (CHR ''n'') :: nat) < 128"
    by simp
  have h4: "length (encodeAlphabet (b32lowerEncoder exampleDeps)) = 32"
    by (simp add: exampleDeps_def)
  note shape = CreateID_shape [OF h1 h2 h3 h4]
  have same: "CreateID exampleDeps (?c\<lparr>Privileged := True\<rparr>) = CreateID exampleDeps ?c"
    by (rule shape [THEN conjunct2, rule_format, where sb' = "podSandbox NetworkCNI"])
       (simp add: newContainer_fields)
  show ?thesis
    using shape [THEN conjunct1] same by (rule conjI)
qed

text \<open>
  C9 as stated fails for a name that begins with a byte from 128 on: \<open>string(b)\<close> of such a
  byte is the two-byte UTF-8 encoding of the code point \<open>b\<close>. For the name \<open>\<open>C3 A9\<close>\<close> (the
  letter e with an acute accent) the output has 17 bytes and begins with \<open>C3 83\<close>.
\<close>

theorem CreateID_non_ascii_name:
  "map_option length (returned (CreateID exampleDeps
     (newContainer [CHR 0xC3, CHR 0xA9] (Some (podSandbox NetworkCNI))))) = Some 17 \<and>
   map_option (take 2) (returned (CreateID exampleDeps
     (newContainer [CHR 0xC3, CHR 0xA9] (Some (podSandbox NetworkCNI))))) = Some [CHR 0xC3, CHR 0x83]"
proof -
  have s: "Sandbox (newContainer [CHR 0xC3, CHR 0xA9] (Some (podSandbox NetworkCNI))) = Some (podSandbox NetworkCNI)"
    and n: "Name (Metadata (newContainer [CHR 0xC3, CHR 0xA9] (Some (podSandbox NetworkCNI)))) = [CHR 0xC3, CHR 0xA9]"
    by (simp_all add: newContainer_def)
  have b: "string_of_byte (CHR 0xC3) = [CHR 0xC3, CHR 0x83]"
    by code_simp
  obtain enc where "CreateID exampleDeps (newContainer [CHR 0xC3, CHR 0xA9] (Some (podSandbox NetworkCNI))) =
      Returns (string_of_byte (CHR 0xC3) @ enc)" and "length enc = 15"
    using CreateID_encoded [OF s n] by blast
  then show ?thesis
    by (simp add: b returned_def)
qed

text \<open>
  C10, as amended. For every container with a sandbox: if its name is empty, \<open>CreateID\<close>
  panics at the index, and so does \<open>CreateContainer\<close> on such a container without an id
  whenever it reaches the creation (the network mode passes the check, the image resolves
  and is found, the devices encode); if its name is not empty, \<open>CreateID\<close> returns.
\<close>

theorem CreateID_requires_name:
  "(Sandbox c = Some sb \<and> Name (Metadata c) = [] \<longrightarrow> CreateID D c = Panics IndexOutOfRange) \<and>
   (Sandbox c = Some sb \<and> Name (Metadata c) = [] \<and> ID c = [] \<and>
    \<not> (Mode (sbNetworkConfig sb) = NetworkHost \<and> \<not> Privileged c) \<and>
    parseImage D (Image c) = Inr imageID \<and> Hash D imageID = Inr (hash, True) \<and>
    snd (makeContainerDevices D (c\<lparr>CreatedAt := clock l\<rparr>)) = None \<longrightarrow>
      CreateContainer D l c = Panics IndexOutOfRange) \<and>
   (Sandbox c = Some sb \<and> Name (Metadata c) \<noteq> [] \<longrightarrow> (\<exists>out. CreateID D c = Returns out))"
proof (intro conjI impI)
  assume "Sandbox c = Some sb \<and> Name (Metadata c) = []"
  then show "CreateID D c = Panics IndexOutOfRange"
    by (simp add: CreateID_def Let_def)
next
  assume a: "Sandbox c = Some sb \<and> Name (Metadata c) = [] \<and> ID c = [] \<and>
    \<not> (Mode (sbNetworkConfig sb) = NetworkHost \<and> \<not> Privileged c) \<and>
    parseImage D (Image c) = Inr imageID \<and> Hash D imageID = Inr (hash, True) \<and>
    snd (makeContainerDevices D (c\<lparr>CreatedAt := clock l\<rparr>)) = None"
  then have "CreateID D (c\<lparr>CreatedAt := clock l\<rparr>) = Panics IndexOutOfRange"
    by (simp add: CreateID_def Let_def)
  with a show "CreateContainer D l c = Panics IndexOutOfRange"
    by (cases "makeContainerDevices D (c\<lparr>CreatedAt := clock l\<rparr>)")
       (auto simp: CreateContainer_def saveContainer_def Let_def)
next
  assume "Sandbox c = Some sb \<and> Name (Metadata c) \<noteq> []"
  then show "\<exists>out. CreateID D c = Returns out"
    by (cases "Name (Metadata c)") (auto simp: CreateID_Returns)
qed

theorem CreateID_requires_name_witness:
  "CreateID exampleDeps (newContainer [] (Some (podSandbox NetworkCNI))) = Panics IndexOutOfRange \<and>
   CreateContainer exampleDeps emptyLXF (newContainer [] (Some (podSandbox NetworkCNI))) =
     Panics IndexOutOfRange \<and>
   (\<exists>out. CreateID exampleDeps (newContainer ''nginx'' (Some (podSandbox NetworkCNI))) = Returns out)"
proof -
  note empty = CreateID_requires_name [where c = "newContainer [] (Some (podSandbox NetworkCNI))"
          and sb = "podSandbox NetworkCNI" and D = exampleDeps and imageID = "''busybox''"
          and hash = "''busybox''" and l = emptyLXF]
  note named = CreateID_requires_name [where c = "newContainer ''nginx'' (Some (podSandbox NetworkCNI))"
          and sb = "podSandbox NetworkCNI" and D = exampleDeps and imageID = "''busybox''"
          and hash = "''busybox''" and l = emptyLXF]
  have a: "CreateID exampleDeps (newContainer [] (Some (podSandbox NetworkCNI))) = Panics IndexOutOfRange"
    by (rule empty [THEN conjunct1, rule_format]) (simp add: newContainer_fields)
  have b: "CreateContainer exampleDeps emptyLXF (newContainer [] (Some (podSandbox NetworkCNI))) =
     Panics IndexOutOfRange"
    by (rule empty [THEN conjunct2, THEN conjunct1, rule_format])
       (simp add: newContainer_fields podSandbox_fields exampleDeps_fields makeContainerDevices_def)
  have c: "\<exists>out. CreateID exampleDeps (newContainer ''nginx'' (Some (podSandbox NetworkCNI))) = Returns out"
    by (rule named [THEN conjunct2, THEN conjunct2, rule_format]) (simp add: newContainer_fields)
  from a b c show ?thesis by simp
qed

text \<open>
  C10 as stated fails for a container whose sandbox pointer is nil: \<open>CreateID\<close> panics at the
  dereference of the sandbox, with an empty name and with a name that is not empty, and
  \<open>CreateContainer\<close> returns the error of line 95 and does not panic. It fails too for a
  container with an empty name, no id and a sandbox in host-network mode that is not
  privileged: \<open>CreateContainer\<close> returns the error of line 102 before it reaches \<open>CreateID\<close>.
\<close>

theorem CreateID_other_outcomes:
  "CreateID exampleDeps (newContainer [] None) = Panics NilDereference \<and>
   CreateContainer exampleDeps emptyLXF (newContainer [] None) =
     Returns (Some (Errorf ''container needs a sandbox''), newContainer [] None, emptyLXF) \<and>
   CreateID exampleDeps (newContainer ''nginx'' None) = Panics NilDereference \<and>
   CreateContainer exampleDeps emptyLXF (newContainer [] (Some (podSandbox NetworkHost))) =
     Returns (Some (Errorf errHostNetwork),
              (newContainer [] (Some (podSandbox NetworkHost)))\<lparr>CreatedAt := clock emptyLXF\<rparr>,
              emptyLXF)"
  by (simp add: CreateID_def CreateContainer_def newContainer_fields podSandbox_fields)

subsection \<open>The state marker\<close>

text \<open>The container \<open>nginx\<close> is created, started, read, updated and stopped; each step is
  run on the engine state the step before left.\<close>

lemma create_step:
  "\<exists>l1. CreateContainer exampleDeps emptyLXF (newContainer ''nginx'' (Some (podSandbox NetworkCNI))) =
     Returns (None, (newContainer ''nginx'' (Some (podSandbox NetworkCNI)))\<lparr>CreatedAt := 1000, ID := ''nzvzgg4a3vcocc3k''\<rparr>, l1) \<and>
     server l1 = [''nzvzgg4a3vcocc3k'' \<mapsto> (podObject ''nzvzgg4a3vcocc3k'' configAtCreation, engineState Stopped)] \<and>
     clock l1 = 1000"
proof -
  have cid: "CreateID exampleDeps ((newContainer ''nginx'' (Some (podSandbox NetworkCNI)))\<lparr>CreatedAt := 1000\<rparr>) = Returns ''nzvzgg4a3vcocc3k''"
    using CreateID_example by (simp add: CreateID_def newContainer_def)
  show ?thesis
    by (simp add: CreateContainer_def saveContainer_def exampleDeps_fields newContainer_fields
        podSandbox_fields emptyLXF_def makeContainerDevices_def cid
        makeContainerConfig_def lxo_CreateContainer_def issue_def cfg_consts
        ContainerStateCreated_def FormatBool_def FormatInt_def FormatUint_0 FormatUint_1000 Let_def
        podObject_def engineState_def configAtCreation_def)
qed

lemma toContainer_started:
  assumes "server l = [i \<mapsto> (podObject i configAfterStart, engineState Running)]"
  shows "GetContainer exampleDeps l i = Inr (startedContainer i)"
  using assms
  by (simp add: GetContainer_def server_GetContainer_def toContainer_def orReturn_def
        server_GetContainerState_def exampleDeps_fields podObject_def engineState_def
        configAfterStart_def cfgGet_def lookup2_def ParseBool_def ParseUint_def ParseInt_def
        isDigit_def digitVal_def cfg_consts StripedPrefixMap_def UnreservedMap_def IsReserved_def
        containerConfigStore_def HasPrefix_def TrimLeft_def extractEnvVars_def deriveState_def
        ContainerStateRunning_def startedContainer_def)

lemma start_step:
  assumes "server l = [i \<mapsto> (podObject i configAtCreation, engineState Stopped)]" and "clock l = 1000"
  shows "\<exists>l2. StartContainer exampleDeps l i = (None, l2) \<and>
           server l2 = [i \<mapsto> (podObject i configAfterStart, engineState Running)] \<and> clock l2 = 1000"
  using assms
  by (simp add: StartContainer_def lxo_StartContainer_def lxo_UpdateContainer_def issue_def Writable_def
        read_defs configAtCreation_def configAfterStart_def FormatInt_def FormatUint_1000 Let_def
        AList.delete_eq)

lemma update_step:
  assumes "server l = [i \<mapsto> (podObject i configAfterStart, engineState Running)]" and "i \<noteq> []"
  shows "\<exists>l3. UpdateContainer exampleDeps l (startedContainer i) = Returns (None, startedContainer i, l3) \<and>
           server l3 = [i \<mapsto> (podObject i configAfterUpdate, engineState Running)]"
  using assms
  by (simp add: UpdateContainer_def saveContainer_def startedContainer_def podSandbox_def
        exampleDeps_fields makeContainerDevices_def makeContainerConfig_def mergeConfigKey_def
        IsReserved_def containerConfigStore_def HasPrefix_def cfg_consts logf_def
        lxo_UpdateContainer_def issue_def podObject_def engineState_def configAfterUpdate_def
        ContainerStateCreated_def FormatBool_def FormatInt_def FormatUint_0 FormatUint_1000 Let_def)

lemma stop_step:
  assumes "server l = [i \<mapsto> (podObject i config, engineState Running)]"
  shows "\<exists>l4. StopContainer l i = (None, l4) \<and>
           server l4 = [i \<mapsto> (podObject i config, engineState Stopped)]"
  using assms
  by (simp add: StopContainer_def lxo_StopContainer_def engineState_def)

lemma read_stopped_after_update:
  assumes "server l = [i \<mapsto> (podObject i configAfterUpdate, engineState Stopped)]"
  shows "\<exists>c. GetContainer exampleDeps l i = Inr c \<and> State c = ContainerStateCreated"
  using assms
  by (simp add: read_defs configAfterUpdate_def ContainerStateCreated_def
        status_codes_distinct status_codes_distinct [symmetric])

lemma read_stopped_without_update:
  assumes "server l = [i \<mapsto> (podObject i configAfterStart, engineState Stopped)]"
  shows "\<exists>c. GetContainer exampleDeps l i = Inr c \<and> State c = ContainerStateExited"
  using assms
  by (simp add: read_defs configAfterStart_def ContainerStateCreated_def ContainerStateExited_def
        status_codes_distinct status_codes_distinct [symmetric])

text \<open>
  Every config that \<open>makeContainerConfig\<close> builds holds the key of the state marker, for
  any choice of the keys; so does the config of every update call that \<open>saveContainer\<close>
  issues.
\<close>

lemma fold_update_keeps_key:
  assumes "k \<in> fst ` set config"
  shows "k \<in> fst ` set (fold (\<lambda>kv. AList.update (f kv) (g kv)) entries config)"
  using assms
  by (induction entries arbitrary: config) (simp_all add: dom_update)

lemma makeContainerConfig_has_marker:
  "cfgState D \<in> fst ` set (makeContainerConfig D c)"
  by (simp add: makeContainerConfig_def Let_def dom_update fold_update_keeps_key)

lemma mergeConfigKey_keeps_key:
  assumes "k \<in> fst ` set (fst cl)"
  shows "k \<in> fst ` set (fst (fold (mergeConfigKey D) entries cl))"
  using assms
  by (induction entries arbitrary: cl) (simp_all add: mergeConfigKey_def dom_update)



lemma mergeConfigKey_calls:
  "calls (snd (fold (mergeConfigKey D) entries cl)) = calls (snd cl)"
  by (induction entries arbitrary: cl) (simp_all add: mergeConfigKey_def logf_def)

lemma lxo_UpdateContainer_calls:
  "calls (snd (lxo_UpdateContainer l id' put)) = calls l @ [LxoUpdateContainer id' put]"
  by (simp add: lxo_UpdateContainer_def issue_def split: option.splits prod.splits)

lemma saveContainer_update_has_marker:
  assumes "saveContainer D l c = Returns (err, c', l')" and "ID c \<noteq> []"
    and "calls l' \<noteq> calls l"
  shows "\<exists>put. calls l' = calls l @ [LxoUpdateContainer (ID c) put] \<and>
           cfgState D \<in> fst ` set (putConfig put)"
proof -
  let ?cl = "fold (mergeConfigKey D) (Config c) (makeContainerConfig D c, l)"
  let ?config = "AList.update (cfgSchema D) (SchemaVersionContainer D) (fst ?cl)"
  have key: "cfgState D \<in> fst ` set ?config"
    by (simp add: dom_update mergeConfigKey_keeps_key makeContainerConfig_has_marker)
  have log: "calls (snd ?cl) = calls l"
    by (simp add: mergeConfigKey_calls)
  obtain im where im: "parseImage D (Image c) = Inr im"
    using assms(1,3) by (cases "parseImage D (Image c)") (auto simp: saveContainer_def)
  obtain hash found where hf: "Hash D im = Inr (hash, found)"
    using assms(1,3) im by (cases "Hash D im") (auto simp: saveContainer_def)
  have found: found
    using assms(1,3) im hf by (cases found) (auto simp: saveContainer_def)
  obtain devices where dev: "makeContainerDevices D c = (devices, None)"
    using assms(1,3) im hf found
    by (cases "makeContainerDevices D c"; cases "snd (makeContainerDevices D c)")
       (auto simp: saveContainer_def)
  obtain sb where sb: "Sandbox c = Some sb"
    using assms(1) im hf found dev
    by (cases "Sandbox c") (auto simp: saveContainer_def Let_def)
  let ?put = "\<lparr>putProfiles = [sbID sb, ''default''], putConfig = ?config, putDevices = devices\<rparr>"
  have "l' = snd (lxo_UpdateContainer (snd ?cl) (ID c) ?put)"
    using assms(1,2) im hf found dev sb
    by (simp add: saveContainer_def Let_def split: prod.splits)
  then have "calls l' = calls l @ [LxoUpdateContainer (ID c) ?put]"
    by (simp add: lxo_UpdateContainer_calls log)
  with key show ?thesis
    by (intro exI [of _ ?put]) simp
qed

text \<open>
  C2. The marker is written at creation and removed by the first successful
  \<open>StartContainer\<close>, but \<open>UpdateContainer\<close> writes it again: \<open>makeContainerConfig\<close> sets it for
  every save. After create, start, update and stop the container reads as Created, where
  without the update it reads as Exited.
\<close>

theorem update_reintroduces_marker:
  "\<exists>c1 l1 l2 c2 c3 l3 l4 c4.
     CreateContainer exampleDeps emptyLXF (newContainer ''nginx'' (Some (podSandbox NetworkCNI))) =
       Returns (None, c1, l1) \<and>
     map_of (persistedConfig l1 (ID c1)) (cfgState exampleDeps) = Some ''created'' \<and>
     StartContainer exampleDeps l1 (ID c1) = (None, l2) \<and>
     map_of (persistedConfig l2 (ID c1)) (cfgState exampleDeps) = None \<and>
     GetContainer exampleDeps l2 (ID c1) = Inr c2 \<and> State c2 = ContainerStateRunning \<and>
     UpdateContainer exampleDeps l2 c2 = Returns (None, c3, l3) \<and>
     map_of (persistedConfig l3 (ID c1)) (cfgState exampleDeps) = Some ''created'' \<and>
     StopContainer l3 (ID c1) = (None, l4) \<and>
     GetContainer exampleDeps l4 (ID c1) = Inr c4 \<and> State c4 = ContainerStateCreated \<and>
     (\<exists>l5 c5. StopContainer l2 (ID c1) = (None, l5) \<and>
        GetContainer exampleDeps l5 (ID c1) = Inr c5 \<and> State c5 = ContainerStateExited)"
proof -
  let ?i = "''nzvzgg4a3vcocc3k''"
  obtain l1 where s1: "CreateContainer exampleDeps emptyLXF (newContainer ''nginx'' (Some (podSandbox NetworkCNI))) =
       Returns (None, (newContainer ''nginx'' (Some (podSandbox NetworkCNI)))\<lparr>CreatedAt := 1000, ID := ?i\<rparr>, l1)"
    and e1: "server l1 = [?i \<mapsto> (podObject ?i configAtCreation, engineState Stopped)]"
    and k1: "clock l1 = 1000"
    using create_step by blast
  obtain l2 where s2: "StartContainer exampleDeps l1 ?i = (None, l2)"
    and e2: "server l2 = [?i \<mapsto> (podObject ?i configAfterStart, engineState Running)]"
    using start_step [OF e1 k1] by blast
  have s3: "GetContainer exampleDeps l2 ?i = Inr (startedContainer ?i)"
    using e2 by (rule toContainer_started)
  obtain l3 where s4: "UpdateContainer exampleDeps l2 (startedContainer ?i) = Returns (None, startedContainer ?i, l3)"
    and e3: "server l3 = [?i \<mapsto> (podObject ?i configAfterUpdate, engineState Running)]"
    using update_step [OF e2] by blast
  obtain l4 where s5: "StopContainer l3 ?i = (None, l4)"
    and e4: "server l4 = [?i \<mapsto> (podObject ?i configAfterUpdate, engineState Stopped)]"
    using stop_step [OF e3] by blast
  obtain c4 where s6: "GetContainer exampleDeps l4 ?i = Inr c4" and st4: "State c4 = ContainerStateCreated"
    using read_stopped_after_update [OF e4] by blast
  have m1: "map_of (persistedConfig l1 ?i) (cfgState exampleDeps) = Some ''created''"
    by (simp add: persistedConfig_def e1 podObject_def configAtCreation_def exampleDeps_fields)
  have m2: "map_of (persistedConfig l2 ?i) (cfgState exampleDeps) = None"
    by (simp add: persistedConfig_def e2 podObject_def configAfterStart_def exampleDeps_fields)
  have m3: "map_of (persistedConfig l3 ?i) (cfgState exampleDeps) = Some ''created''"
    by (simp add: persistedConfig_def e3 podObject_def configAfterUpdate_def exampleDeps_fields)
  have r2: "State (startedContainer ?i) = ContainerStateRunning"
    by (simp add: startedContainer_def ContainerStateRunning_def)
  obtain l5 where s7: "StopContainer l2 ?i = (None, l5)"
    and e5: "server l5 = [?i \<mapsto> (podObject ?i configAfterStart, engineState Stopped)]"
    using stop_step [OF e2] by blast
  obtain c5 where s8: "GetContainer exampleDeps l5 ?i = Inr c5" and st5: "State c5 = ContainerStateExited"
    using read_stopped_without_update [OF e5] by blast
  have without: "\<exists>l5 c5. StopContainer l2 ?i = (None, l5) \<and>
        GetContainer exampleDeps l5 ?i = Inr c5 \<and> State c5 = ContainerStateExited"
    using s7 s8 st5 by blast
  show ?thesis
    using s1 m1 s2 m2 s3 r2 s4 m3 s5 s6 st4 without by force
qed

subsection \<open>Objects without the managed marker\<close>

lemma GetContainer_without_marker:
  assumes "server l id' = Some (ct, st)" and "map_of (apiConfig ct) (cfgIsCRI D) = None"
  shows "GetContainer D l id' = Inl (NumError ''ParseBool'' [] ErrSyntax)"
  using assms
  by (simp add: GetContainer_def server_GetContainer_def cfgGet_def lookup2_def ParseBool_def)

lemma GetContainer_marker_false:
  assumes "server l id' = Some (ct, st)" and "map_of (apiConfig ct) (cfgIsCRI D) = Some v"
    and "ParseBool v = Inr False"
  shows "GetContainer D l id' = Inl (Errorf (ErrorNotFound D))"
  using assms
  by (simp add: GetContainer_def server_GetContainer_def cfgGet_def lookup2_def)

text \<open>
  C8. For an engine object that lacks the managed marker, \<open>GetContainer\<close> returns the
  syntax error of \<open>strconv.ParseBool\<close> on the empty string, which is not the not-found
  error. (With the marker present and false it returns the not-found error.)
\<close>

theorem GetContainer_unmarked_object:
  "GetContainer exampleDeps (engineWith ''legacy'' [(''image.os'', ''ubuntu'')] Running) ''legacy'' =
     Inl (NumError ''ParseBool'' [] ErrSyntax) \<and>
   GetContainer exampleDeps (engineWith ''legacy'' [(''image.os'', ''ubuntu'')] Running) ''legacy'' \<noteq>
     Inl (Errorf (ErrorNotFound exampleDeps))"
  by (simp add: GetContainer_def server_GetContainer_def cfgGet_def lookup2_def ParseBool_def
        engineWith_def emptyLXF_def exampleDeps_def)

subsection \<open>The lifecycle event handler\<close>

lemma lifecycleEventHandler_failed_load:
  assumes "GetContainer D l (TrimPrefix source ''/1.0/containers/'') = Inl err"
  shows "lifecycleEventHandler D l (Event ''lifecycle'' (EventLifecycle ''container-started'' source)) =
           Panics NilDereference"
  using assms by (simp add: lifecycleEventHandler_def Let_def)

text \<open>The failures that the handler does swallow: the three decoding failures, and a
  failed attach, reattach or sandbox save for a container that was loaded and whose sandbox
  has a mode-data map.\<close>

lemma lifecycleEventHandler_malformed:
  "lifecycleEventHandler D l MarshalFails =
     Returns (logf LError ''unable to marshal json event: %v'' l)"
  "lifecycleEventHandler D l UnmarshalFails =
     Returns (logf LError ''unable to unmarshal to json event: %v'' l)"
  "lifecycleEventHandler D l (Event ''lifecycle'' BadMetadata) =
     Returns (logf LError ''unable to unmarshal to json lifecycle event: %v'' l)"
  by (simp_all add: lifecycleEventHandler_def)

lemma attachNetwork_returns:
  assumes "ModeData (sbNetworkConfig sb) \<noteq> None"
  shows "\<exists>l'. attachNetwork D l cnt sb = Returns l'"
  using assms by (auto simp: attachNetwork_def Let_def)

lemma lifecycleEventHandler_loaded:
  assumes "GetContainer D l (TrimPrefix source ''/1.0/containers/'') = Inr cnt"
    and "Sandbox cnt = Some sb" and "ModeData (sbNetworkConfig sb) \<noteq> None"
  shows "\<exists>l'. lifecycleEventHandler D l
                 (Event ''lifecycle'' (EventLifecycle ''container-started'' source)) = Returns l'"
  using assms attachNetwork_returns [OF assms(3)]
  by (simp add: lifecycleEventHandler_def Let_def)

text \<open>
  C3. A started-notification for a container that cannot be loaded makes the handler
  panic: the failure is logged, the handler goes on with the nil container and
  dereferences it.
\<close>

theorem lifecycleEventHandler_panics:
  "lifecycleEventHandler exampleDeps emptyLXF
     (Event ''lifecycle'' (EventLifecycle ''container-started'' ''/1.0/containers/gone'')) =
   Panics NilDereference"
  by (simp add: lifecycleEventHandler_def Let_def GetContainer_def server_GetContainer_def
        emptyLXF_def TrimPrefix_def HasPrefix_def)

subsection \<open>Environment variables\<close>

text \<open>What the decoder removes from a key of the environment namespace, and what removing
  the prefix would leave.\<close>

lemma TrimLeft_environment:
  "TrimLeft (cfgEnvironmentPrefix @ ''.'' @ k) (cfgEnvironmentPrefix @ ''.'') =
     dropWhile (\<lambda>c. c \<in> set ''environment.'') k"
  by (simp add: TrimLeft_def cfgEnvironmentPrefix_def)

lemma TrimPrefix_environment:
  "TrimPrefix (cfgEnvironmentPrefix @ ''.'' @ k) (cfgEnvironmentPrefix @ ''.'') = k"
  by (simp add: TrimPrefix_def HasPrefix_def cfgEnvironmentPrefix_def)

text \<open>
  C6. The variable \<open>name\<close> is encoded under the key \<open>environment.name\<close> and decoded as \<open>ame\<close>:
  \<open>TrimLeft\<close> removes the leading \<open>n\<close> too, which occurs in the prefix.
\<close>

theorem environment_roundtrip_fails:
  "extractEnvVars (makeContainerConfig exampleDeps (newContainer ''nginx'' (Some (podSandbox NetworkCNI)))) =
     [(''ame'', ''x'')]"
  by (simp add: extractEnvVars_def makeContainerConfig_def exampleDeps_def newContainer_def
        Let_def HasPrefix_def TrimLeft_def cfgLogPath_def cfgSecurityPrivileged_def
        cfgVolatileBaseImage_def cfgStartedAt_def cfgCloudInitUserData_def cfgCloudInitMetaData_def
        cfgEnvironmentPrefix_def cfgAutoStartOnBoot_def ContainerStateCreated_def FormatBool_def
        FormatInt_def FormatUint.simps digitChar_def)

subsection \<open>The volume reconciler\<close>

lemma fold_probeDisk:
  "fold (probeDisk it id') disks acc =
     (fst acc @ confirmed it id' disks, snd acc @ probeSteps it id' disks)"
proof (induction disks arbitrary: acc)
  case Nil
  then show ?case by (simp add: confirmed_def probeSteps_def)
next
  case (Cons disk disks)
  have "fold (probeDisk it id') (disk # disks) acc =
          fold (probeDisk it id') disks (probeDisk it id' disk acc)"
    by simp
  also have "\<dots> = (fst (probeDisk it id' disk acc) @ confirmed it id' disks,
                   snd (probeDisk it id' disk acc) @ probeSteps it id' disks)"
    by (rule Cons.IH)
  also have "\<dots> = (fst acc @ confirmed it id' (disk # disks), snd acc @ probeSteps it id' (disk # disks))"
    by (cases "itGetContainerFile it id' (Path disk)")
       (simp_all add: probeDisk_def confirmed_def probeSteps_def)
  finally show ?case .
qed

lemma isCall_probeSteps:
  "filter isCall (probeSteps it id' disks) = map (\<lambda>disk. CalledGetContainerFile id' (Path disk)) disks"
  by (induction disks) (simp_all add: probeSteps_def)

lemma isCall_repairSteps:
  "filter isCall (repairSteps it id' mountedDisks allDisks) =
     [Slept, CalledUpdateContainer id' mountedDisks, CalledUpdateContainer id' allDisks]"
  by (simp add: repairSteps_def)

lemma remountLoop_reload_fails:
  assumes "itGetContainer it = Inl err"
  shows "remountLoop id' allDisks mountedDisks (it # rest) tr =
           (tr @ [CalledGetContainer id',
                  Logged LDebug ''remountMissingVolumes failed to update container info: %v'',
                  Logged LError ''cntInfo was nil''], True)"
  using assms by simp

lemma remountLoop_stale:
  assumes "itGetContainer it = Inr cnt"
    and "State cnt = ContainerStateExited \<or> State cnt = ContainerStateUnknown"
  shows "remountLoop id' allDisks mountedDisks (it # rest) tr =
           (tr @ [CalledGetContainer id', Logged LDebug ''state remountMissingVolumes: stale container''], True)"
  using assms by auto

lemma remountLoop_continues:
  assumes "itGetContainer it = Inr cnt"
    and "State cnt \<noteq> ContainerStateExited" and "State cnt \<noteq> ContainerStateUnknown"
    and "length (mountedDisks @ confirmed it (ID cnt) (Disks cnt)) \<noteq> length allDisks"
  shows "remountLoop id' allDisks mountedDisks (it # rest) tr =
           remountLoop id' allDisks (mountedDisks @ confirmed it (ID cnt) (Disks cnt)) rest
             (tr @ [CalledGetContainer id'] @ probeSteps it (ID cnt) (Disks cnt) @
              repairSteps it (ID cnt) (mountedDisks @ confirmed it (ID cnt) (Disks cnt)) allDisks)"
  using assms
  by (cases "itUpdateMounted it"; cases "itUpdateAll it")
     (simp_all add: fold_probeDisk repairSteps_def Let_def)

lemma remountLoop_returns_at_check:
  assumes "itGetContainer it = Inr cnt"
    and "State cnt \<noteq> ContainerStateExited" and "State cnt \<noteq> ContainerStateUnknown"
    and "length (mountedDisks @ confirmed it (ID cnt) (Disks cnt)) = length allDisks"
  shows "remountLoop id' allDisks mountedDisks (it # rest) tr =
           (tr @ [CalledGetContainer id'] @ probeSteps it (ID cnt) (Disks cnt), True)"
  using assms by (simp add: fold_probeDisk Let_def)

lemma remountLoop_all_probes_fail:
  assumes "\<forall>it \<in> set script. \<exists>cnt. itGetContainer it = Inr cnt \<and>
             State cnt \<noteq> ContainerStateExited \<and> State cnt \<noteq> ContainerStateUnknown \<and>
             (\<forall>disk \<in> set (Disks cnt). itGetContainerFile it (ID cnt) (Path disk) \<noteq> None)"
    and "allDisks \<noteq> []"
  shows "snd (remountLoop id' allDisks [] script tr) = False"
  using assms
proof (induction script arbitrary: tr)
  case Nil
  then show ?case by simp
next
  case (Cons it script)
  then obtain cnt where cnt: "itGetContainer it = Inr cnt"
    "State cnt \<noteq> ContainerStateExited" "State cnt \<noteq> ContainerStateUnknown"
    "\<forall>disk \<in> set (Disks cnt). itGetContainerFile it (ID cnt) (Path disk) \<noteq> None"
    by auto
  then have none: "confirmed it (ID cnt) (Disks cnt) = []"
    by (auto simp: confirmed_def filter_empty_conv)
  with Cons.prems(2) have "length ([] @ confirmed it (ID cnt) (Disks cnt)) \<noteq> length allDisks"
    by simp
  from remountLoop_continues [OF cnt(1-3) this] none
  have "remountLoop id' allDisks [] (it # script) tr =
          remountLoop id' allDisks [] script
            (tr @ [CalledGetContainer id'] @ probeSteps it (ID cnt) (Disks cnt) @
             repairSteps it (ID cnt) [] allDisks)"
    by simp
  with Cons show ?case by simp
qed

text \<open>
  C4, as amended. In a run with 3 expected disks whose first pass reloads the container in
  a state other than Exited and Unknown and confirms exactly 2 of the disks, the
  reconciler probes the three disks, sleeps, issues an update call with the 2 confirmed
  disks, then an update call with the 3 original disks, and goes on with the next pass.
\<close>

theorem remount_first_pass:
  assumes "itGetContainer it = Inr cnt"
    and "State cnt \<noteq> ContainerStateExited" and "State cnt \<noteq> ContainerStateUnknown"
    and "ID cnt = ID c" and "Disks cnt = Disks c"
    and "length (Disks c) = 3" and "length (confirmed it (ID c) (Disks c)) = 2"
  shows "\<exists>tr. remountMissingVolumes (it # rest) c =
                remountLoop (ID c) (Disks c) (confirmed it (ID c) (Disks c)) rest tr \<and>
              filter isCall tr =
                CalledGetContainer (ID c) #
                map (\<lambda>disk. CalledGetContainerFile (ID c) (Path disk)) (Disks c) @
                [Slept, CalledUpdateContainer (ID c) (confirmed it (ID c) (Disks c)),
                 CalledUpdateContainer (ID c) (Disks c)]"
proof -
  from assms(4-7) have "length ([] @ confirmed it (ID cnt) (Disks cnt)) \<noteq> length (Disks c)"
    by simp
  from remountLoop_continues [OF assms(1-3) this] assms(4,5)
  have "remountMissingVolumes (it # rest) c =
          remountLoop (ID c) (Disks c) (confirmed it (ID c) (Disks c)) rest
            ([Logged LDebug ''remountMissingVolumes triggered: %v''] @ [CalledGetContainer (ID c)] @
             probeSteps it (ID c) (Disks c) @
             repairSteps it (ID c) (confirmed it (ID c) (Disks c)) (Disks c))"
    by (simp add: remountMissingVolumes_def)
  moreover have "filter isCall
            ([Logged LDebug ''remountMissingVolumes triggered: %v''] @ [CalledGetContainer (ID c)] @
             probeSteps it (ID c) (Disks c) @
             repairSteps it (ID c) (confirmed it (ID c) (Disks c)) (Disks c)) =
          CalledGetContainer (ID c) #
                map (\<lambda>disk. CalledGetContainerFile (ID c) (Path disk)) (Disks c) @
                [Slept, CalledUpdateContainer (ID c) (confirmed it (ID c) (Disks c)),
                 CalledUpdateContainer (ID c) (Disks c)]"
    by (simp add: isCall_probeSteps isCall_repairSteps)
  ultimately show ?thesis by blast
qed

theorem remount_first_pass_witness:
  "\<exists>tr. remountMissingVolumes [passTwoOfThree, passAllThree] volumeContainer =
          remountLoop ''c1'' [\<lparr>Path = ''/mnt/a''\<rparr>, \<lparr>Path = ''/mnt/b''\<rparr>, \<lparr>Path = ''/mnt/c''\<rparr>]
            [\<lparr>Path = ''/mnt/a''\<rparr>, \<lparr>Path = ''/mnt/b''\<rparr>] [passAllThree] tr \<and>
        filter isCall tr =
          [CalledGetContainer ''c1'', CalledGetContainerFile ''c1'' ''/mnt/a'',
           CalledGetContainerFile ''c1'' ''/mnt/b'', CalledGetContainerFile ''c1'' ''/mnt/c'',
           Slept, CalledUpdateContainer ''c1'' [\<lparr>Path = ''/mnt/a''\<rparr>, \<lparr>Path = ''/mnt/b''\<rparr>],
           CalledUpdateContainer ''c1'' [\<lparr>Path = ''/mnt/a''\<rparr>, \<lparr>Path = ''/mnt/b''\<rparr>, \<lparr>Path = ''/mnt/c''\<rparr>]]"
  using remount_first_pass [of passTwoOfThree volumeContainer volumeContainer "[passAllThree]"]
  by (simp add: pass_fields volumeContainer_fields confirmed_def state_names)

text \<open>
  C4 as stated fails on its own scenario: the sleep comes before the two update calls, and
  when the second pass confirms all 3 disks the loop does not return; it holds 5 confirmed
  disks then and issues two more update calls.
\<close>

theorem remount_scenario_keeps_running:
  "snd (remountMissingVolumes [passTwoOfThree, passAllThree] volumeContainer) = False \<and>
   filter isCall (fst (remountMissingVolumes [passTwoOfThree, passAllThree] volumeContainer)) =
     [CalledGetContainer ''c1'', CalledGetContainerFile ''c1'' ''/mnt/a'',
      CalledGetContainerFile ''c1'' ''/mnt/b'', CalledGetContainerFile ''c1'' ''/mnt/c'',
      Slept, CalledUpdateContainer ''c1'' [\<lparr>Path = ''/mnt/a''\<rparr>, \<lparr>Path = ''/mnt/b''\<rparr>],
      CalledUpdateContainer ''c1'' [\<lparr>Path = ''/mnt/a''\<rparr>, \<lparr>Path = ''/mnt/b''\<rparr>, \<lparr>Path = ''/mnt/c''\<rparr>],
      CalledGetContainer ''c1'', CalledGetContainerFile ''c1'' ''/mnt/a'',
      CalledGetContainerFile ''c1'' ''/mnt/b'', CalledGetContainerFile ''c1'' ''/mnt/c'',
      Slept,
      CalledUpdateContainer ''c1'' [\<lparr>Path = ''/mnt/a''\<rparr>, \<lparr>Path = ''/mnt/b''\<rparr>, \<lparr>Path = ''/mnt/a''\<rparr>,
                                    \<lparr>Path = ''/mnt/b''\<rparr>, \<lparr>Path = ''/mnt/c''\<rparr>],
      CalledUpdateContainer ''c1'' [\<lparr>Path = ''/mnt/a''\<rparr>, \<lparr>Path = ''/mnt/b''\<rparr>, \<lparr>Path = ''/mnt/c''\<rparr>]]"
  by (simp add: remountMissingVolumes_def pass_fields volumeContainer_fields probeDisk_def state_names)

text \<open>
  C5, as amended. In a pass of the loop: a failing reload is logged and ends the loop; a
  derived state of Exited or Unknown ends the loop; otherwise every disk is probed, a
  failing probe is logged and the probing goes on, and when the pass does not end at the
  disk check both update calls are issued, a failing one is logged, and the loop goes on
  with the next pass. Over any number of passes in which the reload succeeds and every
  probe fails, the loop is still running, whatever the update calls return.
\<close>

theorem remount_failures:
  "(itGetContainer it = Inl err \<longrightarrow>
      remountLoop id' allDisks mountedDisks (it # rest) tr =
        (tr @ [CalledGetContainer id',
               Logged LDebug ''remountMissingVolumes failed to update container info: %v'',
               Logged LError ''cntInfo was nil''], True)) \<and>
   (itGetContainer it = Inr cnt \<and>
    (State cnt = ContainerStateExited \<or> State cnt = ContainerStateUnknown) \<longrightarrow>
      remountLoop id' allDisks mountedDisks (it # rest) tr =
        (tr @ [CalledGetContainer id',
               Logged LDebug ''state remountMissingVolumes: stale container''], True)) \<and>
   (itGetContainer it = Inr cnt \<and>
    State cnt \<noteq> ContainerStateExited \<and> State cnt \<noteq> ContainerStateUnknown \<and>
    length (mountedDisks @ confirmed it (ID cnt) (Disks cnt)) \<noteq> length allDisks \<longrightarrow>
      remountLoop id' allDisks mountedDisks (it # rest) tr =
        remountLoop id' allDisks (mountedDisks @ confirmed it (ID cnt) (Disks cnt)) rest
          (tr @ [CalledGetContainer id'] @ probeSteps it (ID cnt) (Disks cnt) @
           repairSteps it (ID cnt) (mountedDisks @ confirmed it (ID cnt) (Disks cnt)) allDisks)) \<and>
   ((\<forall>it \<in> set script. \<exists>cnt. itGetContainer it = Inr cnt \<and>
        State cnt \<noteq> ContainerStateExited \<and> State cnt \<noteq> ContainerStateUnknown \<and>
        (\<forall>disk \<in> set (Disks cnt). itGetContainerFile it (ID cnt) (Path disk) \<noteq> None)) \<and>
    allDisks \<noteq> [] \<longrightarrow>
      snd (remountLoop id' allDisks [] script tr) = False)"
proof (intro conjI impI)
  assume "itGetContainer it = Inl err"
  then show "remountLoop id' allDisks mountedDisks (it # rest) tr =
        (tr @ [CalledGetContainer id',
               Logged LDebug ''remountMissingVolumes failed to update container info: %v'',
               Logged LError ''cntInfo was nil''], True)"
    by (rule remountLoop_reload_fails)
next
  assume "itGetContainer it = Inr cnt \<and>
    (State cnt = ContainerStateExited \<or> State cnt = ContainerStateUnknown)"
  then show "remountLoop id' allDisks mountedDisks (it # rest) tr =
        (tr @ [CalledGetContainer id',
               Logged LDebug ''state remountMissingVolumes: stale container''], True)"
    by (simp add: remountLoop_stale)
next
  assume "itGetContainer it = Inr cnt \<and>
    State cnt \<noteq> ContainerStateExited \<and> State cnt \<noteq> ContainerStateUnknown \<and>
    length (mountedDisks @ confirmed it (ID cnt) (Disks cnt)) \<noteq> length allDisks"
  then show "remountLoop id' allDisks mountedDisks (it # rest) tr =
        remountLoop id' allDisks (mountedDisks @ confirmed it (ID cnt) (Disks cnt)) rest
          (tr @ [CalledGetContainer id'] @ probeSteps it (ID cnt) (Disks cnt) @
           repairSteps it (ID cnt) (mountedDisks @ confirmed it (ID cnt) (Disks cnt)) allDisks)"
    by (intro remountLoop_continues) simp_all
next
  assume "(\<forall>it \<in> set script. \<exists>cnt. itGetContainer it = Inr cnt \<and>
        State cnt \<noteq> ContainerStateExited \<and> State cnt \<noteq> ContainerStateUnknown \<and>
        (\<forall>disk \<in> set (Disks cnt). itGetContainerFile it (ID cnt) (Path disk) \<noteq> None)) \<and>
    allDisks \<noteq> []"
  then show "snd (remountLoop id' allDisks [] script tr) = False"
    by (intro remountLoop_all_probes_fail) simp_all
qed

theorem remount_failures_witness:
  "remountLoop ''c1'' (Disks volumeContainer) [] [passReloadFails] [] =
     ([CalledGetContainer ''c1'',
       Logged LDebug ''remountMissingVolumes failed to update container info: %v'',
       Logged LError ''cntInfo was nil''], True) \<and>
   remountLoop ''c1'' (Disks volumeContainer) []
       [passAllFail\<lparr>itGetContainer := Inr (volumeContainer\<lparr>State := ContainerStateExited\<rparr>)\<rparr>] [] =
     ([CalledGetContainer ''c1'',
       Logged LDebug ''state remountMissingVolumes: stale container''], True) \<and>
   remountLoop ''c1'' (Disks volumeContainer) [] [passAllFail, passAllThree] [] =
     remountLoop ''c1'' (Disks volumeContainer) [] [passAllThree]
       ([CalledGetContainer ''c1''] @ probeSteps passAllFail ''c1'' (Disks volumeContainer) @
        repairSteps passAllFail ''c1'' [] (Disks volumeContainer)) \<and>
   snd (remountLoop ''c1'' (Disks volumeContainer) [] [passAllFail, passAllFail] []) = False"
  using remount_failures [of passReloadFails "External ''connection refused''" "''c1''"
          "Disks volumeContainer" "[]" "[]" "[]" volumeContainer "[]"]
        remount_failures [of "passAllFail\<lparr>itGetContainer := Inr (volumeContainer\<lparr>State := ContainerStateExited\<rparr>)\<rparr>"
          "External ''x''" "''c1''" "Disks volumeContainer" "[]" "[]" "[]"
          "volumeContainer\<lparr>State := ContainerStateExited\<rparr>" "[]"]
        remount_failures [of passAllFail "External ''x''" "''c1''" "Disks volumeContainer" "[]"
          "[passAllThree]" "[]" volumeContainer "[]"]
        remount_failures [of passAllFail "External ''x''" "''c1''" "Disks volumeContainer" "[]"
          "[]" "[]" volumeContainer "[passAllFail, passAllFail]"]
  by (simp add: pass_fields volumeContainer_fields confirmed_def state_names)

text \<open>
  C5 as stated fails where the reload fails: the loop ends there, with no derived state and
  no disk confirmed.
\<close>

theorem remount_reload_failure_ends_loop:
  "remountMissingVolumes [passReloadFails] volumeContainer =
     ([Logged LDebug ''remountMissingVolumes triggered: %v'', CalledGetContainer ''c1'',
       Logged LDebug ''remountMissingVolumes failed to update container info: %v'',
       Logged LError ''cntInfo was nil''], True)"
  by (simp add: remountMissingVolumes_def pass_fields volumeContainer_fields)

end
